theory Spec2Isabelle
  imports Complex_Main "HOL-Library.Sublist" "HOL-Library.Char_ord" "HOL-Library.List_Lexorder"
begin

section \<open>Budget tracker (agent/budget.py)\<close>

text \<open>
  Python floats are idealised as real numbers throughout: prices, budgets and costs are
  \<open>real\<close>, token and step counts are Python's unbounded \<open>int\<close>.  Rounding, overflow
  to infinity and NaN are outside this model.
\<close>

text \<open>
  The exception classes the modelled code can meet, all subclasses of \<open>Exception\<close>;
  \<open>Other\<close> stands for any further subclass, by its name.  Interrupts and task
  cancellation, which are not subclasses of \<open>Exception\<close>, are outside the model.
\<close>

datatype exn = ZeroDivisionError | ValueError | TypeError | KeyError | IndexError
  | RuntimeError | OSError | UnicodeDecodeError | TimeoutExpired | Other string

record CostRecord =
  model :: string
  input_tokens :: int
  output_tokens :: int
  cost :: real
  step :: int

record BudgetTracker =
  total_budget :: real
  spent :: real
  records :: "CostRecord list"
  estimated_remaining_steps_raw :: int

text \<open>\<open>int(x)\<close> on a float truncates towards zero.\<close>

definition py_int :: "real \<Rightarrow> int" where
  "py_int x = (if 0 \<le> x then \<lfloor>x\<rfloor> else \<lceil>x\<rceil>)"

definition BudgetTracker_init :: "real \<Rightarrow> BudgetTracker" where
  "BudgetTracker_init tb =
     \<lparr>total_budget = tb, spent = 0, records = [], estimated_remaining_steps_raw = 10\<rparr>"

definition remaining :: "BudgetTracker \<Rightarrow> real" where
  "remaining b = max (total_budget b - spent b) 0"

definition utilization :: "BudgetTracker \<Rightarrow> real" where
  "utilization b = (if total_budget b = 0 then 1 else spent b / total_budget b)"

definition estimated_remaining_steps :: "BudgetTracker \<Rightarrow> int" where
  "estimated_remaining_steps b = max (estimated_remaining_steps_raw b) 1"

definition set_estimated_remaining_steps :: "int \<Rightarrow> BudgetTracker \<Rightarrow> BudgetTracker" where
  "set_estimated_remaining_steps v b = b\<lparr>estimated_remaining_steps_raw := max v 1\<rparr>"

definition budget_per_step :: "BudgetTracker \<Rightarrow> real" where
  "budget_per_step b = remaining b / real_of_int (estimated_remaining_steps b)"

definition avg_cost_per_step :: "BudgetTracker \<Rightarrow> real" where
  "avg_cost_per_step b =
     (if records b = [] then 0 else spent b / real (length (records b)))"

text \<open>The realized cost of one call, as \<open>record\<close> computes it.\<close>

definition call_cost :: "int \<Rightarrow> int \<Rightarrow> real \<Rightarrow> real \<Rightarrow> real" where
  "call_cost itok otok ip op =
     real_of_int itok * ip / 1000000 + real_of_int otok * op / 1000000"

text \<open>
  \<open>BudgetTracker.record\<close>: returns the cost of the call and the updated tracker.  The
  division by \<open>avg_cost_per_step\<close> is guarded by \<open>avg_cost_per_step > 0\<close>.
\<close>

definition record_call ::
  "BudgetTracker \<Rightarrow> string \<Rightarrow> int \<Rightarrow> int \<Rightarrow> real \<Rightarrow> real \<Rightarrow> int \<Rightarrow> real \<times> BudgetTracker" where
  "record_call b model_id itok otok ip op stp =
     (let c = call_cost itok otok ip op;
          b1 = b\<lparr>spent := spent b + c,
                 records := records b @
                   [\<lparr>model = model_id, input_tokens = itok, output_tokens = otok,
                     cost = c, step = stp\<rparr>]\<rparr>;
          b2 = (if 2 \<le> length (records b1) \<and> 0 < avg_cost_per_step b1
                then b1\<lparr>estimated_remaining_steps_raw :=
                          max (py_int (remaining b1 / avg_cost_per_step b1)) 1\<rparr>
                else b1)
      in (c, b2))"

definition can_afford :: "BudgetTracker \<Rightarrow> real \<Rightarrow> bool" where
  "can_afford b estimated_cost \<longleftrightarrow> remaining b \<ge> estimated_cost"

text \<open>
  \<open>BudgetTracker.max_output_tokens\<close>.  The quotient divides by
  \<open>output_cost_per_1m / 1_000_000\<close>; Python raises \<open>ZeroDivisionError\<close> when that
  divisor is zero.
\<close>

definition max_output_tokens :: "BudgetTracker \<Rightarrow> real \<Rightarrow> real \<Rightarrow> int \<Rightarrow> exn + int" where
  "max_output_tokens b ip op estimated_input_tokens =
     (let budget_for_call = budget_per_step b;
          input_cost = real_of_int estimated_input_tokens * ip / 1000000;
          budget_for_output = budget_for_call - input_cost
      in if budget_for_output \<le> 0 then Inr 256
         else if op / 1000000 = 0 then Inl ZeroDivisionError
         else Inr (max 256 (min (py_int (budget_for_output / (op / 1000000))) 16384)))"

text \<open>A \<open>record\<close> call's arguments, and a sequence of calls run in order.\<close>

record rec_call =
  rc_model :: string
  rc_input_tokens :: int
  rc_output_tokens :: int
  rc_input_cost_per_1m :: real
  rc_output_cost_per_1m :: real
  rc_step :: int

definition record_one :: "BudgetTracker \<Rightarrow> rec_call \<Rightarrow> real \<times> BudgetTracker" where
  "record_one b c =
     record_call b (rc_model c) (rc_input_tokens c) (rc_output_tokens c)
       (rc_input_cost_per_1m c) (rc_output_cost_per_1m c) (rc_step c)"

fun record_all :: "BudgetTracker \<Rightarrow> rec_call list \<Rightarrow> BudgetTracker" where
  "record_all b [] = b"
| "record_all b (c # cs) = record_all (snd (record_one b c)) cs"

definition realized_cost :: "rec_call \<Rightarrow> real" where
  "realized_cost c =
     (real_of_int (rc_input_tokens c) * rc_input_cost_per_1m c
        + real_of_int (rc_output_tokens c) * rc_output_cost_per_1m c) / 1000000"

definition nonneg_call :: "rec_call \<Rightarrow> bool" where
  "nonneg_call c \<longleftrightarrow>
     0 \<le> rc_input_tokens c \<and> 0 \<le> rc_output_tokens c \<and>
     0 \<le> rc_input_cost_per_1m c \<and> 0 \<le> rc_output_cost_per_1m c"

text \<open>Two concrete calls used to exercise the statements below.\<close>

definition call_a :: rec_call where
  "call_a = \<lparr>rc_model = ''gpt-4o'', rc_input_tokens = 2000, rc_output_tokens = 1000,
             rc_input_cost_per_1m = 5 / 2, rc_output_cost_per_1m = 10, rc_step = 1\<rparr>"

definition call_neg :: rec_call where
  "call_neg = \<lparr>rc_model = ''gpt-4o'', rc_input_tokens = - 1, rc_output_tokens = 0,
               rc_input_cost_per_1m = 5 / 2, rc_output_cost_per_1m = 10, rc_step = 1\<rparr>"

section \<open>Model registry and router (agent/router.py)\<close>

datatype ModelTier = BUDGET | ECONOMY | STANDARD | PREMIUM

fun tier_value :: "ModelTier \<Rightarrow> int" where
  "tier_value BUDGET = 1"
| "tier_value ECONOMY = 2"
| "tier_value STANDARD = 3"
| "tier_value PREMIUM = 4"

datatype StepType = PLAN | EXECUTE | VERIFY | SIMPLE

fun STEP_CAPABILITY_WEIGHT :: "StepType \<Rightarrow> real" where
  "STEP_CAPABILITY_WEIGHT PLAN = 6 / 10"
| "STEP_CAPABILITY_WEIGHT EXECUTE = 1"
| "STEP_CAPABILITY_WEIGHT VERIFY = 5 / 10"
| "STEP_CAPABILITY_WEIGHT SIMPLE = 1 / 10"

record ModelInfo =
  model_id :: string
  provider :: string
  tier :: ModelTier
  input_cost_per_1m :: real
  output_cost_per_1m :: real
  context_window :: int

definition estimate_call_cost :: "ModelInfo \<Rightarrow> int \<Rightarrow> int \<Rightarrow> real" where
  "estimate_call_cost m itok otok =
     real_of_int itok * input_cost_per_1m m / 1000000
       + real_of_int otok * output_cost_per_1m m / 1000000"

text \<open>\<open>estimate_call_cost()\<close> with its default arguments (2000 input, 1000 output tokens).\<close>

definition default_cost :: "ModelInfo \<Rightarrow> real" where
  "default_cost m = estimate_call_cost m 2000 1000"

definition mk_model :: "string \<Rightarrow> string \<Rightarrow> ModelTier \<Rightarrow> real \<Rightarrow> real \<Rightarrow> int \<Rightarrow> ModelInfo" where
  "mk_model i p t ic oc cw =
     \<lparr>model_id = i, provider = p, tier = t, input_cost_per_1m = ic,
      output_cost_per_1m = oc, context_window = cw\<rparr>"

definition MODEL_REGISTRY :: "ModelInfo list" where
  "MODEL_REGISTRY =
    [mk_model ''claude-opus-4-20250514'' ''anthropic'' PREMIUM 15 75 200000,
     mk_model ''claude-sonnet-4-20250514'' ''anthropic'' STANDARD 3 15 200000,
     mk_model ''claude-haiku-3-5-20241022'' ''anthropic'' ECONOMY (80 / 100) 4 200000,
     mk_model ''o1'' ''openai'' PREMIUM 15 60 200000,
     mk_model ''gpt-4o'' ''openai'' STANDARD (250 / 100) 10 128000,
     mk_model ''gpt-4o-mini'' ''openai'' ECONOMY (15 / 100) (60 / 100) 128000,
     mk_model ''gemini-2.0-pro'' ''google'' STANDARD (125 / 100) 10 1000000,
     mk_model ''gemini-2.0-flash'' ''google'' ECONOMY (10 / 100) (40 / 100) 1000000,
     mk_model ''gemini-1.5-flash'' ''google'' BUDGET (75 / 1000) (30 / 100) 1000000]"

text \<open>
  The router keeps the model list; its \<open>budget\<close> attribute is a reference to the agent's
  tracker, which the agent mutates between calls, so the tracker's current state is an
  explicit argument of \<open>select\<close>.
\<close>

record ModelRouter =
  models :: "ModelInfo list"

text \<open>\<open>list.sort(key=...)\<close> is a stable ascending sort, as \<open>sort_key\<close> is.\<close>

definition ModelRouter_init :: "string list \<Rightarrow> exn + ModelRouter" where
  "ModelRouter_init available_providers =
     (let ms = filter (\<lambda>m. provider m \<in> set available_providers) MODEL_REGISTRY
      in if ms = [] then Inl ValueError
         else Inr \<lparr>models = sort_key default_cost ms\<rparr>)"

text \<open>
  \<open>min(xs, key=f)\<close>: the first element whose key is minimal; \<open>ValueError\<close> on an empty
  list.
\<close>

fun py_min_from :: "('a \<Rightarrow> real) \<Rightarrow> 'a \<Rightarrow> 'a list \<Rightarrow> 'a" where
  "py_min_from f best [] = best"
| "py_min_from f best (y # ys) = py_min_from f (if f y < f best then y else best) ys"

definition py_min_key :: "('a \<Rightarrow> real) \<Rightarrow> 'a list \<Rightarrow> exn + 'a" where
  "py_min_key f xs = (case xs of [] \<Rightarrow> Inl ValueError | x # ys \<Rightarrow> Inr (py_min_from f x ys))"

definition cheapest :: "ModelRouter \<Rightarrow> exn + ModelInfo" where
  "cheapest r = py_min_key default_cost (models r)"

text \<open>
  \<open>list.sort(key=f, reverse=True)\<close>: CPython reverses the list, sorts it stably in
  ascending order and reverses it again, so elements with equal keys keep their order.
\<close>

definition py_sort_reverse :: "('a \<Rightarrow> real) \<Rightarrow> 'a list \<Rightarrow> 'a list" where
  "py_sort_reverse f xs = rev (sort_key f (rev xs))"

definition score_of :: "real \<Rightarrow> real \<Rightarrow> ModelInfo \<Rightarrow> real \<Rightarrow> real" where
  "score_of capability_weight per_step_budget m c =
     (let cap_score = real_of_int (tier_value (tier m)) / real_of_int (tier_value PREMIUM);
          savings_score = (if per_step_budget > 0 then 1 - c / per_step_budget else 0)
      in capability_weight * cap_score + (1 - capability_weight) * savings_score)"

definition candidates_of :: "ModelRouter \<Rightarrow> real \<Rightarrow> int \<Rightarrow> int \<Rightarrow> (ModelInfo \<times> real) list" where
  "candidates_of r per_step_budget itok otok =
     filter (\<lambda>(m, c). c \<le> per_step_budget)
       (map (\<lambda>m. (m, estimate_call_cost m itok otok)) (models r))"

definition select :: "ModelRouter \<Rightarrow> BudgetTracker \<Rightarrow> StepType \<Rightarrow> int \<Rightarrow> int \<Rightarrow> exn + ModelInfo" where
  "select r b step_type estimated_input_tokens estimated_output_tokens =
     (let per_step_budget = budget_per_step b;
          capability_weight = STEP_CAPABILITY_WEIGHT step_type
      in if utilization b > 95 / 100 then cheapest r
         else
           (let candidates = candidates_of r per_step_budget
                               estimated_input_tokens estimated_output_tokens
            in if candidates = [] then cheapest r
               else
                 (let scored = map (\<lambda>(m, c).
                                 (m, score_of capability_weight per_step_budget m c, c))
                               candidates
                  in case py_sort_reverse (\<lambda>x. fst (snd x)) scored of
                       [] \<Rightarrow> Inl IndexError
                     | x # _ \<Rightarrow> Inr (fst x))))"


text \<open>
  Concrete routers and trackers used to exercise the statements below: the router the
  constructor builds for the provider \<open>google\<close> with its two cheapest models, a tracker
  with a budget of one millionth, and a tracker that has spent 96 percent of its budget.
\<close>

definition gemini_15_flash :: ModelInfo where
  "gemini_15_flash = mk_model ''gemini-1.5-flash'' ''google'' BUDGET (75 / 1000) (30 / 100) 1000000"

definition gemini_20_flash :: ModelInfo where
  "gemini_20_flash = mk_model ''gemini-2.0-flash'' ''google'' ECONOMY (10 / 100) (40 / 100) 1000000"

definition google_router :: ModelRouter where
  "google_router =
     \<lparr>models =
        [mk_model ''gemini-1.5-flash'' ''google'' BUDGET (75 / 1000) (30 / 100) 1000000,
         mk_model ''gemini-2.0-flash'' ''google'' ECONOMY (10 / 100) (40 / 100) 1000000,
         mk_model ''gemini-2.0-pro'' ''google'' STANDARD (125 / 100) 10 1000000]\<rparr>"

definition tiny_budget :: BudgetTracker where
  "tiny_budget = BudgetTracker_init (1 / 1000000)"

definition nearly_spent :: BudgetTracker where
  "nearly_spent = (BudgetTracker_init 1)\<lparr>spent := 96 / 100\<rparr>"

section \<open>Python string operations\<close>

text \<open>
  A Python \<open>str\<close> is modelled as a \<open>string\<close> whose characters stand for code points
  below 256; \<open>length\<close> counts characters as \<open>len\<close> does.  The functions below follow the
  behaviour of the \<open>str\<close> methods and of the \<open>re\<close> module on such strings.
\<close>

text \<open>\<open>str.isspace\<close> on one character; also the class \<open>\s\<close> of \<open>re\<close> on \<open>str\<close> patterns.\<close>

definition py_isspace :: "char \<Rightarrow> bool" where
  "py_isspace c \<longleftrightarrow>
     (let n = (of_char c :: nat)
      in (9 \<le> n \<and> n \<le> 13) \<or> (28 \<le> n \<and> n \<le> 32) \<or> n = 133 \<or> n = 160)"

text \<open>The line boundaries of \<open>str.splitlines\<close> (among code points below 256).\<close>

definition py_linebreak :: "char \<Rightarrow> bool" where
  "py_linebreak c \<longleftrightarrow>
     (let n = (of_char c :: nat)
      in (10 \<le> n \<and> n \<le> 13) \<or> (28 \<le> n \<and> n \<le> 30) \<or> n = 133)"

text \<open>
  \<open>str.splitlines()\<close>: splits at every line boundary, \<open>\r\n\<close> counting as one; the
  boundaries are dropped and a trailing boundary does not open an empty last line.
\<close>

fun splitlines_acc :: "string \<Rightarrow> string \<Rightarrow> string list" where
  "splitlines_acc cur [] = (if cur = [] then [] else [cur])"
| "splitlines_acc cur [c] = (if py_linebreak c then [cur] else [cur @ [c]])"
| "splitlines_acc cur (c # d # cs) =
     (if c = CHR 0x0D \<and> d = CHR 0x0A then cur # splitlines_acc [] cs
      else if py_linebreak c then cur # splitlines_acc [] (d # cs)
      else splitlines_acc (cur @ [c]) (d # cs))"

definition splitlines :: "string \<Rightarrow> string list" where
  "splitlines s = splitlines_acc [] s"

text \<open>\<open>sep.join(xs)\<close>.\<close>

fun py_join :: "string \<Rightarrow> string list \<Rightarrow> string" where
  "py_join sep [] = []"
| "py_join sep [x] = x"
| "py_join sep (x # y # ys) = x @ sep @ py_join sep (y # ys)"

text \<open>\<open>str.strip()\<close>: removes leading and trailing whitespace.\<close>

definition py_strip :: "string \<Rightarrow> string" where
  "py_strip s = rev (dropWhile py_isspace (rev (dropWhile py_isspace s)))"

text \<open>\<open>str.lower()\<close> on one character (ASCII and Latin-1 capital letters).\<close>

definition py_lower_char :: "char \<Rightarrow> char" where
  "py_lower_char c =
     (let n = (of_char c :: nat)
      in if (65 \<le> n \<and> n \<le> 90) \<or> (192 \<le> n \<and> n \<le> 222 \<and> n \<noteq> 215)
         then char_of (n + 32) else c)"

text \<open>\<open>s.find(c)\<close> for a one-character needle: the first index, or \<open>-1\<close>.\<close>

fun py_find_from :: "int \<Rightarrow> char \<Rightarrow> string \<Rightarrow> int" where
  "py_find_from i c [] = - 1"
| "py_find_from i c (x # xs) = (if x = c then i else py_find_from (i + 1) c xs)"

definition py_find :: "string \<Rightarrow> char \<Rightarrow> int" where
  "py_find s c = py_find_from 0 c s"

text \<open>The slice \<open>s[:i]\<close>; a negative \<open>i\<close> counts from the end.\<close>

definition py_slice_to :: "string \<Rightarrow> int \<Rightarrow> string" where
  "py_slice_to s i =
     (if 0 \<le> i then take (nat i) s else take (nat (int (length s) + i)) s)"

text \<open>\<open>str(n)\<close> for integers, and the format \<open>{n:,}\<close> with thousands separators.\<close>

definition digit_char :: "nat \<Rightarrow> char" where
  "digit_char d = char_of (48 + d)"

function str_nat :: "nat \<Rightarrow> string" where
  "str_nat n = (if n < 10 then [digit_char n] else str_nat (n div 10) @ [digit_char (n mod 10)])"
  by pat_completeness auto
termination
  by (relation "measure id") auto

declare str_nat.simps [simp del]

definition str_int :: "int \<Rightarrow> string" where
  "str_int i = (if i < 0 then CHR ''-'' # str_nat (nat (- i)) else str_nat (nat i))"

definition pad3 :: "nat \<Rightarrow> string" where
  "pad3 n = [digit_char (n div 100 mod 10), digit_char (n div 10 mod 10), digit_char (n mod 10)]"

function fmt_commas :: "nat \<Rightarrow> string" where
  "fmt_commas n =
     (if n < 1000 then str_nat n
      else fmt_commas (n div 1000) @ CHR '','' # pad3 (n mod 1000))"
  by pat_completeness auto
termination
  by (relation "measure id") auto

declare fmt_commas.simps [simp del]

section \<open>Tool sandbox (agent/tools.py)\<close>

subsection \<open>Values, exceptions and the host\<close>

text \<open>
  The values a tool-call argument can take (JSON strings, integers and null), and the
  truth value Python gives them.
\<close>

datatype pyval = PStr string | PInt int | PNone

fun truthy :: "pyval \<Rightarrow> bool" where
  "truthy (PStr s) = (s \<noteq> [])"
| "truthy (PInt i) = (i \<noteq> 0)"
| "truthy PNone = False"

text \<open>\<open>str(v)\<close>, as an f-string renders a value.\<close>

fun py_str :: "pyval \<Rightarrow> string" where
  "py_str (PStr s) = s"
| "py_str (PInt i) = str_int i"
| "py_str PNone = ''None''"

text \<open>
  A raised exception: its class and its message.  The messages of exceptions raised by
  the interpreter and the standard library are representative; nothing below depends on
  their wording.
\<close>

type_synonym pyexn = "exn \<times> string"

fun exn_name :: "exn \<Rightarrow> string" where
  "exn_name ZeroDivisionError = ''ZeroDivisionError''"
| "exn_name ValueError = ''ValueError''"
| "exn_name TypeError = ''TypeError''"
| "exn_name KeyError = ''KeyError''"
| "exn_name IndexError = ''IndexError''"
| "exn_name RuntimeError = ''RuntimeError''"
| "exn_name OSError = ''OSError''"
| "exn_name UnicodeDecodeError = ''UnicodeDecodeError''"
| "exn_name TimeoutExpired = ''TimeoutExpired''"
| "exn_name (Other n) = n"

text \<open>
  The regular files of the machine, by canonical path: what is stored is the decoded text
  of the file with its line endings as they are on disk.  Everything else the tools ask of
  the operating system is answered by the host: which path names which file, whether
  opening a file fails, whether a text can be encoded as UTF-8 (a text with a lone
  surrogate cannot), directories, globbing, and the external processes.  The answers may
  depend on the current files; a shell command may change them.  The operating system is
  a POSIX one: paths are joined with a slash and a newline is written as it is.
\<close>

type_synonym fsmap = "string \<rightharpoonup> string"

datatype sub_outcome =
    Completed string string int
  | TimedOut
  | SubFailed pyexn

record host =
  realpath :: "string \<Rightarrow> string"
  read_fault :: "fsmap \<Rightarrow> bool \<Rightarrow> string \<Rightarrow> pyexn option"
  write_fault :: "fsmap \<Rightarrow> string \<Rightarrow> pyexn option"
  encodable :: "string \<Rightarrow> bool"
  is_dir :: "fsmap \<Rightarrow> string \<Rightarrow> bool"
  list_dir :: "fsmap \<Rightarrow> string \<Rightarrow> pyexn + string list"
  glob_paths :: "fsmap \<Rightarrow> string \<Rightarrow> pyexn + string list"
  relpath :: "string \<Rightarrow> string \<Rightarrow> pyexn + string"
  run_argv :: "fsmap \<Rightarrow> string list \<Rightarrow> int \<Rightarrow> sub_outcome"
  run_shell :: "fsmap \<Rightarrow> string \<Rightarrow> int \<Rightarrow> string \<Rightarrow> sub_outcome \<times> fsmap"

subsection \<open>String operations of the edit tool\<close>

text \<open>
  \<open>content.count(sub)\<close>: the number of non-overlapping occurrences of \<open>sub\<close>, scanning
  from the left; for the empty string, \<open>len(content) + 1\<close>.
\<close>

function py_count_ne :: "string \<Rightarrow> string \<Rightarrow> nat" where
  "py_count_ne sub s =
     (if sub = [] \<or> length s < length sub then 0
      else if prefix sub s then Suc (py_count_ne sub (drop (length sub) s))
      else py_count_ne sub (tl s))"
  by pat_completeness auto
termination
  by (relation "measure (\<lambda>(sub, s). length s)") (auto simp: neq_Nil_conv)

declare py_count_ne.simps [simp del]

definition py_count :: "string \<Rightarrow> string \<Rightarrow> nat" where
  "py_count content sub = (if sub = [] then length content + 1 else py_count_ne sub content)"

text \<open>\<open>content.replace(old, new, 1)\<close>: the first occurrence of \<open>old\<close> replaced.\<close>

fun py_replace1 :: "string \<Rightarrow> string \<Rightarrow> string \<Rightarrow> string" where
  "py_replace1 old new [] = (if old = [] then new else [])"
| "py_replace1 old new (c # cs) =
     (if prefix old (c # cs) then new @ drop (length old) (c # cs)
      else c # py_replace1 old new cs)"

text \<open>\<open>s.split("\n")\<close>.\<close>

fun py_split_nl_acc :: "string \<Rightarrow> string \<Rightarrow> string list" where
  "py_split_nl_acc cur [] = [cur]"
| "py_split_nl_acc cur (c # cs) =
     (if c = CHR 0x0A then cur # py_split_nl_acc [] cs else py_split_nl_acc (cur @ [c]) cs)"

definition py_split_nl :: "string \<Rightarrow> string list" where
  "py_split_nl s = py_split_nl_acc [] s"

subsection \<open>Paths\<close>

text \<open>\<open>os.path.isabs\<close> and the two-argument \<open>os.path.join\<close> of \<open>posixpath\<close>.\<close>

definition isabs :: "string \<Rightarrow> bool" where
  "isabs p = (case p of [] \<Rightarrow> False | c # _ \<Rightarrow> c = CHR ''/'')"

definition path_join :: "string \<Rightarrow> string \<Rightarrow> string" where
  "path_join a b =
     (if isabs b then b
      else if a = [] \<or> last a = CHR ''/'' then a @ b
      else a @ ''/'' @ b)"

text \<open>
  \<open>_resolve_path\<close>; \<open>os.path.isabs\<close> raises \<open>TypeError\<close> on a value that is not a string.
\<close>

definition resolve_path :: "string \<Rightarrow> pyval \<Rightarrow> pyexn + string" where
  "resolve_path working_dir path =
     (case path of
        PStr p \<Rightarrow> Inr (if isabs p then p else path_join working_dir p)
      | _ \<Rightarrow> Inl (TypeError, ''expected str, bytes or os.PathLike object''))"

definition isfile :: "host \<Rightarrow> fsmap \<Rightarrow> string \<Rightarrow> bool" where
  "isfile h fs resolved \<longleftrightarrow> fs (realpath h resolved) \<noteq> None"

text \<open>
  A file opened in text mode is read with universal newlines: every \<open>\r\n\<close> and every
  other \<open>\r\<close> arrives as \<open>\n\<close>.
\<close>

fun universal_newlines :: "string \<Rightarrow> string" where
  "universal_newlines [] = []"
| "universal_newlines [c] = [if c = CHR 0x0D then CHR 0x0A else c]"
| "universal_newlines (c # d # cs) =
     (if c = CHR 0x0D \<and> d = CHR 0x0A then CHR 0x0A # universal_newlines cs
      else if c = CHR 0x0D then CHR 0x0A # universal_newlines (d # cs)
      else c # universal_newlines (d # cs))"

text \<open>
  Opening a file for reading and reading all of it; \<open>strict\<close> tells whether undecodable
  bytes raise (\<open>edit_file\<close>) or are replaced (\<open>read_file\<close>).
\<close>

definition read_text :: "host \<Rightarrow> fsmap \<Rightarrow> bool \<Rightarrow> string \<Rightarrow> pyexn + string" where
  "read_text h fs strict resolved =
     (case read_fault h fs strict resolved of
        Some e \<Rightarrow> Inl e
      | None \<Rightarrow>
          (case fs (realpath h resolved) of
             None \<Rightarrow> Inl (Other ''FileNotFoundError'', resolved)
           | Some stored \<Rightarrow> Inr (universal_newlines stored)))"

subsection \<open>The tools\<close>

type_synonym arguments = "(string \<times> pyval) list"

text \<open>A tool returns a value or raises, and leaves the files in some state.\<close>

type_synonym tool_result = "(pyexn + pyval) \<times> fsmap"

definition tool_read_file :: "host \<Rightarrow> string \<Rightarrow> fsmap \<Rightarrow> pyval \<Rightarrow> tool_result" where
  "tool_read_file h working_dir fs path =
     (case resolve_path working_dir path of
        Inl e \<Rightarrow> (Inl e, fs)
      | Inr resolved \<Rightarrow>
          if \<not> isfile h fs resolved
          then (Inr (PStr (''Error: File not found: '' @ py_str path)), fs)
          else
            (case read_text h fs False resolved of
               Inl e \<Rightarrow> (Inl e, fs)
             | Inr content \<Rightarrow>
                 if length content > 100000
                 then (Inr (PStr (take 100000 content @ [CHR 0x0A, CHR 0x0A]
                          @ ''... (truncated, file is '' @ fmt_commas (length content)
                          @ '' chars)'')), fs)
                 else (Inr (PStr content), fs)))"

text \<open>
  \<open>write_file\<close>: the host's fault stands for a failure of \<open>makedirs\<close> or \<open>open\<close>, before
  anything is written.  Once the file is open it is truncated, also when \<open>write\<close> then
  rejects a content that is not a string or that cannot be encoded.
\<close>

definition tool_write_file :: "host \<Rightarrow> string \<Rightarrow> fsmap \<Rightarrow> pyval \<Rightarrow> pyval \<Rightarrow> tool_result" where
  "tool_write_file h working_dir fs path content =
     (case resolve_path working_dir path of
        Inl e \<Rightarrow> (Inl e, fs)
      | Inr resolved \<Rightarrow>
          (case write_fault h fs resolved of
             Some e \<Rightarrow> (Inl e, fs)
           | None \<Rightarrow>
               (case content of
                  PStr c \<Rightarrow>
                    if encodable h c
                    then (Inr (PStr (''Wrote '' @ fmt_commas (length c) @ '' chars to ''
                                      @ py_str path)),
                          fs(realpath h resolved \<mapsto> c))
                    else (Inl (Other ''UnicodeEncodeError'', ''surrogates not allowed''),
                          fs(realpath h resolved \<mapsto> []))
                | _ \<Rightarrow>
                    (Inl (TypeError, ''write() argument must be str''),
                     fs(realpath h resolved \<mapsto> [])))))"

definition tool_edit_file ::
  "host \<Rightarrow> string \<Rightarrow> fsmap \<Rightarrow> pyval \<Rightarrow> pyval \<Rightarrow> pyval \<Rightarrow> tool_result" where
  "tool_edit_file h working_dir fs path old_string new_string =
     (case resolve_path working_dir path of
        Inl e \<Rightarrow> (Inl e, fs)
      | Inr resolved \<Rightarrow>
          if \<not> isfile h fs resolved
          then (Inr (PStr (''Error: File not found: '' @ py_str path)), fs)
          else
            (case read_text h fs True resolved of
               Inl e \<Rightarrow> (Inl e, fs)
             | Inr content \<Rightarrow>
                 (case old_string of
                    PStr old \<Rightarrow>
                      (let count = py_count content old
                       in if count = 0
                          then (Inr (PStr ''Error: old_string not found in file''), fs)
                          else if count > 1
                          then (Inr (PStr (''Error: old_string found '' @ str_nat count
                                   @ '' times, must be unique. Add more context.'')), fs)
                          else
                            (case new_string of
                               PStr new \<Rightarrow>
                                 (case write_fault h fs resolved of
                                    Some e \<Rightarrow> (Inl e, fs)
                                  | None \<Rightarrow>
                                      if encodable h (py_replace1 old new content)
                                      then (Inr (PStr (''Edited '' @ py_str path
                                                   @ '': replaced 1 occurrence'')),
                                            fs(realpath h resolved \<mapsto>
                                                 py_replace1 old new content))
                                      else (Inl (Other ''UnicodeEncodeError'',
                                                 ''surrogates not allowed''),
                                            fs(realpath h resolved \<mapsto> [])))
                             | _ \<Rightarrow>
                                 (Inl (TypeError, ''replace() argument 2 must be str''), fs)))
                  | _ \<Rightarrow> (Inl (TypeError, ''must be str''), fs))))"

text \<open>A list comprehension over a function that may raise stops at the first exception.\<close>

fun map_exn :: "('a \<Rightarrow> pyexn + 'b) \<Rightarrow> 'a list \<Rightarrow> pyexn + 'b list" where
  "map_exn f [] = Inr []"
| "map_exn f (x # xs) =
     (case f x of
        Inl e \<Rightarrow> Inl e
      | Inr y \<Rightarrow> (case map_exn f xs of Inl e \<Rightarrow> Inl e | Inr ys \<Rightarrow> Inr (y # ys)))"

definition tool_list_files :: "host \<Rightarrow> string \<Rightarrow> fsmap \<Rightarrow> pyval \<Rightarrow> tool_result" where
  "tool_list_files h working_dir fs path =
     (case resolve_path working_dir path of
        Inl e \<Rightarrow> (Inl e, fs)
      | Inr resolved \<Rightarrow>
          if CHR ''*'' \<in> set (py_str path) \<or> CHR ''?'' \<in> set (py_str path) then
            (case glob_paths h fs resolved of
               Inl e \<Rightarrow> (Inl e, fs)
             | Inr found \<Rightarrow>
                 (let matches = sort found
                  in if matches = [] then (Inr (PStr ''No files matched the pattern.''), fs)
                     else
                       (case map_exn (\<lambda>m. relpath h m working_dir) matches of
                          Inl e \<Rightarrow> (Inl e, fs)
                        | Inr rel \<Rightarrow> (Inr (PStr (py_join [CHR 0x0A] (take 500 rel))), fs))))
          else if is_dir h fs resolved then
            (case list_dir h fs resolved of
               Inl e \<Rightarrow> (Inl e, fs)
             | Inr names \<Rightarrow>
                 (let entries = sort names;
                      result = map (\<lambda>e. e @ (if is_dir h fs (path_join resolved e)
                                              then ''/'' else []))
                                 (take 500 entries)
                  in (Inr (PStr (py_join [CHR 0x0A] result)), fs)))
          else (Inr (PStr (''Error: Not a directory or pattern: '' @ py_str path)), fs))"

text \<open>
  The command line handed to \<open>subprocess.run\<close> must consist of strings; any other
  element makes it raise \<open>TypeError\<close>.
\<close>

fun argv_strings :: "pyval list \<Rightarrow> string list option" where
  "argv_strings [] = Some []"
| "argv_strings (PStr s # vs) = map_option (\<lambda>ss. s # ss) (argv_strings vs)"
| "argv_strings (_ # vs) = None"

definition tool_search_files ::
  "host \<Rightarrow> string \<Rightarrow> fsmap \<Rightarrow> pyval \<Rightarrow> pyval \<Rightarrow> pyval \<Rightarrow> tool_result" where
  "tool_search_files h working_dir fs pattern path include =
     (case (if truthy path then resolve_path working_dir path else Inr working_dir) of
        Inl e \<Rightarrow> (Inl e, fs)
      | Inr search_dir \<Rightarrow>
          (let cmd =
             (if truthy include
              then [PStr ''grep'', PStr ''-rn'', PStr ''--include'', include, PStr ''-E'',
                    pattern, PStr search_dir]
              else [PStr ''grep'', PStr ''-rn'', PStr ''-E'', pattern, PStr search_dir])
           in case argv_strings cmd of
                None \<Rightarrow> (Inl (TypeError, ''expected str, bytes or os.PathLike object''), fs)
              | Some argv \<Rightarrow>
                  (case run_argv h fs argv 15 of
                     Completed out err returncode \<Rightarrow>
                       (let output = py_strip out
                        in if output = [] then (Inr (PStr ''No matches found.''), fs)
                           else
                             (let lines = py_split_nl output
                              in if length lines > 100
                                 then (Inr (PStr (py_join [CHR 0x0A] (take 100 lines)
                                          @ [CHR 0x0A] @ ''... ('' @ str_nat (length lines)
                                          @ '' total matches)'')), fs)
                                 else (Inr (PStr output), fs)))
                   | TimedOut \<Rightarrow> (Inr (PStr ''Error: Search timed out''), fs)
                   | SubFailed e \<Rightarrow> (Inl e, fs))))"

text \<open>
  \<open>run_command\<close>: \<open>min(timeout, 120)\<close> raises \<open>TypeError\<close> unless the timeout is a
  number, and so does \<open>subprocess.run\<close> on a command that is not a string.  The shell
  may change the files.
\<close>

definition tool_run_command :: "host \<Rightarrow> string \<Rightarrow> fsmap \<Rightarrow> pyval \<Rightarrow> pyval \<Rightarrow> tool_result" where
  "tool_run_command h working_dir fs command timeout =
     (case timeout of
        PInt t \<Rightarrow>
          (case command of
             PStr c \<Rightarrow>
               (case run_shell h fs c (min t 120) working_dir of
                  (Completed out err returncode, fs') \<Rightarrow>
                    (let o1 = (if out \<noteq> [] then out else []);
                         o2 = (if err \<noteq> []
                               then o1 @ (if o1 \<noteq> [] then [CHR 0x0A] else []) @ err
                               else o1);
                         o3 = (if returncode \<noteq> 0
                               then o2 @ [CHR 0x0A] @ ''(exit code: '' @ str_int returncode
                                    @ '')''
                               else o2);
                         stripped = py_strip o3
                     in (Inr (PStr (if stripped \<noteq> [] then stripped else ''(no output)'')),
                         fs'))
                | (TimedOut, fs') \<Rightarrow>
                    (Inr (PStr (''Error: Command timed out after '' @ str_int t @ ''s'')),
                     fs')
                | (SubFailed e, fs') \<Rightarrow> (Inl e, fs'))
           | _ \<Rightarrow> (Inl (TypeError, ''expected str, bytes or os.PathLike object''), fs))
      | _ \<Rightarrow> (Inl (TypeError, ''not supported between instances''), fs))"

definition tool_task_complete :: "fsmap \<Rightarrow> pyval \<Rightarrow> tool_result" where
  "tool_task_complete fs summary = (Inr summary, fs)"

subsection \<open>Dispatch\<close>

text \<open>
  \<open>handler(**arguments)\<close>: a keyword that is no parameter of the handler, or a required
  parameter without a value, raises \<open>TypeError\<close> before the handler runs.
\<close>

definition bind_error :: "string list \<Rightarrow> string list \<Rightarrow> arguments \<Rightarrow> pyexn option" where
  "bind_error required optional args =
     (if list_ex (\<lambda>k. k \<notin> set (required @ optional)) (map fst args)
      then Some (TypeError, ''got an unexpected keyword argument'')
      else if list_ex (\<lambda>r. r \<notin> set (map fst args)) required
      then Some (TypeError, ''missing required positional argument'')
      else None)"

definition arg :: "arguments \<Rightarrow> string \<Rightarrow> pyval \<Rightarrow> pyval" where
  "arg args k dflt = (case map_of args k of Some v \<Rightarrow> v | None \<Rightarrow> dflt)"

definition bound ::
  "string list \<Rightarrow> string list \<Rightarrow> arguments \<Rightarrow> fsmap \<Rightarrow> tool_result \<Rightarrow> tool_result" where
  "bound required optional args fs body =
     (case bind_error required optional args of Some e \<Rightarrow> (Inl e, fs) | None \<Rightarrow> body)"

text \<open>
  \<open>getattr(self, f"_tool_{name}", None)\<close> followed by the call: \<open>None\<close> when the registry
  has no such method.
\<close>

definition call_tool ::
  "host \<Rightarrow> string \<Rightarrow> fsmap \<Rightarrow> string \<Rightarrow> arguments \<Rightarrow> tool_result option" where
  "call_tool h working_dir fs name args =
     (if name = ''read_file'' then
        Some (bound [''path''] [] args fs
               (tool_read_file h working_dir fs (arg args ''path'' PNone)))
      else if name = ''write_file'' then
        Some (bound [''path'', ''content''] [] args fs
               (tool_write_file h working_dir fs (arg args ''path'' PNone)
                  (arg args ''content'' PNone)))
      else if name = ''edit_file'' then
        Some (bound [''path'', ''old_string'', ''new_string''] [] args fs
               (tool_edit_file h working_dir fs (arg args ''path'' PNone)
                  (arg args ''old_string'' PNone) (arg args ''new_string'' PNone)))
      else if name = ''list_files'' then
        Some (bound [''path''] [] args fs
               (tool_list_files h working_dir fs (arg args ''path'' PNone)))
      else if name = ''search_files'' then
        Some (bound [''pattern''] [''path'', ''include''] args fs
               (tool_search_files h working_dir fs (arg args ''pattern'' PNone)
                  (arg args ''path'' (PStr [])) (arg args ''include'' (PStr []))))
      else if name = ''run_command'' then
        Some (bound [''command''] [''timeout''] args fs
               (tool_run_command h working_dir fs (arg args ''command'' PNone)
                  (arg args ''timeout'' (PInt 30))))
      else if name = ''task_complete'' then
        Some (bound [''summary''] [] args fs
               (tool_task_complete fs (arg args ''summary'' PNone)))
      else None)"

text \<open>
  \<open>ToolRegistry.execute\<close>: the \<open>except Exception\<close> clause turns every exception of the
  handler into a string.
\<close>

definition execute ::
  "host \<Rightarrow> string \<Rightarrow> fsmap \<Rightarrow> string \<Rightarrow> arguments \<Rightarrow> tool_result" where
  "execute h working_dir fs name args =
     (case call_tool h working_dir fs name args of
        None \<Rightarrow> (Inr (PStr (''Error: Unknown tool '' @ [CHR 0x27] @ name @ [CHR 0x27])), fs)
      | Some (Inr v, fs') \<Rightarrow> (Inr v, fs')
      | Some (Inl (cls, msg), fs') \<Rightarrow>
          (Inr (PStr (''Error: '' @ exn_name cls @ '': '' @ msg)), fs'))"

text \<open>
  A host without faults, directories or processes, and a working directory with one
  file, used to exercise the statements below.
\<close>

definition plain_host :: host where
  "plain_host =
     \<lparr>realpath = (\<lambda>p. p),
      read_fault = (\<lambda>fs strict p. None),
      write_fault = (\<lambda>fs p. None),
      encodable = (\<lambda>s. True),
      is_dir = (\<lambda>fs p. False),
      list_dir = (\<lambda>fs p. Inl (Other ''NotADirectoryError'', p)),
      glob_paths = (\<lambda>fs p. Inr []),
      relpath = (\<lambda>p start. Inr p),
      run_argv = (\<lambda>fs argv t. Completed [] [] 1),
      run_shell = (\<lambda>fs c t cwd. (Completed [] [] 0, fs))\<rparr>"

definition foo_files :: fsmap where
  "foo_files = [''/w/a.txt'' \<mapsto> ''foo bar foo'']"









section \<open>Task plan store (lib/brain.py)\<close>

text \<open>
  The tail \<open>(.+)$\<close> of the task pattern at a given position: \<open>.\<close> matches every character
  but a newline, greedily, and \<open>$\<close> matches at the end of the string or just before a
  final newline.  The result is the text of group 2.
\<close>

definition dot_plus_end :: "string \<Rightarrow> string option" where
  "dot_plus_end s =
     (let body = takeWhile (\<lambda>c. c \<noteq> CHR 0x0A) s;
          rest = dropWhile (\<lambda>c. c \<noteq> CHR 0x0A) s
      in if body \<noteq> [] \<and> (rest = [] \<or> rest = [CHR 0x0A]) then Some body else None)"

text \<open>
  \<open>\s*(.+)$\<close>: the greedy \<open>\s*\<close> first takes all \<open>k\<close> leading whitespace characters and
  gives them back one at a time until the rest matches.
\<close>

fun match_tail_from :: "nat \<Rightarrow> string \<Rightarrow> string option" where
  "match_tail_from 0 s = dot_plus_end s"
| "match_tail_from (Suc k) s =
     (case dot_plus_end (drop (Suc k) s) of
        Some g \<Rightarrow> Some g
      | None \<Rightarrow> match_tail_from k s)"

definition match_tail :: "string \<Rightarrow> string option" where
  "match_tail s = match_tail_from (length (takeWhile py_isspace s)) s"

text \<open>
  \<open>re.match(r"^\s*[-*]\s*\[([ x/])\]\s*(.+)$", line)\<close>: the groups 1 (the marker) and 2
  of a match, \<open>None\<close> when the line does not match.  The first two \<open>\s*\<close> have to take
  exactly the whitespace in front of the bullet and of the bracket, since neither \<open>[-*]\<close>
  nor \<open>\[\<close> matches a whitespace character.
\<close>

definition match_task_line :: "string \<Rightarrow> (char \<times> string) option" where
  "match_task_line line =
     (case dropWhile py_isspace line of
        [] \<Rightarrow> None
      | b # s2 \<Rightarrow>
          if b = CHR ''-'' \<or> b = CHR ''*'' then
            (case dropWhile py_isspace s2 of
               lb # m # rb # s4 \<Rightarrow>
                 if lb = CHR ''['' \<and> rb = CHR '']''
                    \<and> (m = CHR '' '' \<or> m = CHR ''x'' \<or> m = CHR ''/'')
                 then (case match_tail s4 of Some g \<Rightarrow> Some (m, g) | None \<Rightarrow> None)
                 else None
             | _ \<Rightarrow> None)
          else None)"

record task =
  task_status :: string
  task_text :: string
  original_line :: string

definition parse_line :: "string \<Rightarrow> task option" where
  "parse_line line =
     (case match_task_line line of
        None \<Rightarrow> None
      | Some (marker, g2) \<Rightarrow>
          Some \<lparr>task_status =
                  (if py_lower_char marker = CHR ''x'' then ''done''
                   else if marker = CHR ''/'' then ''running''
                   else ''pending''),
                task_text = py_strip g2,
                original_line = line\<rparr>)"

text \<open>
  The task file is \<open>None\<close> when it does not exist and \<open>Some content\<close> otherwise.
\<close>

definition read_task_plan :: "string option \<Rightarrow> task list" where
  "read_task_plan task_file =
     (case task_file of
        None \<Rightarrow> []
      | Some content \<Rightarrow> List.map_filter parse_line (splitlines content))"

definition get_next_pending_task :: "string option \<Rightarrow> string option" where
  "get_next_pending_task task_file =
     (case filter (\<lambda>t. task_status t = ''pending'') (read_task_plan task_file) of
        [] \<Rightarrow> None
      | t # _ \<Rightarrow> Some (task_text t))"

definition marker_for :: "string \<Rightarrow> string" where
  "marker_for st =
     (if st = ''running'' then ''[/]''
      else if st = ''done'' then ''[x]''
      else if st = ''pending'' then ''[ ]''
      else ''[ ]'')"

definition mark_line :: "string \<Rightarrow> string \<Rightarrow> string \<Rightarrow> string" where
  "mark_line the_text marker line =
     (case match_task_line line of
        Some (m, g2) \<Rightarrow>
          (let current_text = py_strip g2
           in if current_text = the_text
              then (let indent = py_slice_to line (py_find line (CHR ''-''))
                    in indent @ ''- '' @ marker @ '' '' @ current_text)
              else line)
      | None \<Rightarrow> line)"

text \<open>\<open>mark_task_status\<close> returns the file after the call.\<close>

definition mark_task_status :: "string option \<Rightarrow> string \<Rightarrow> string \<Rightarrow> string option" where
  "mark_task_status task_file the_text st =
     (case task_file of
        None \<Rightarrow> None
      | Some content \<Rightarrow>
          Some (py_join [CHR 0x0A] (map (mark_line the_text (marker_for st)) (splitlines content))
                @ [CHR 0x0A]))"

text \<open>Concrete task files used to exercise the statements below.\<close>

definition star_plan :: string where
  "star_plan = ''* [ ] task'' @ [CHR 0x0A]"

definition upper_plan :: string where
  "upper_plan = ''# Plan'' @ [CHR 0x0A] @ ''- [X] Ship it'' @ [CHR 0x0A]"

section \<open>Job wrapper (lib/jules_wrapper.py)\<close>

record JobStatus =
  job_id :: string
  state :: string
  current_step :: string
  pr_link :: "string option"
  branch_name :: "string option"
  started_at :: "int option"
  completed_at :: "int option"
  job_error :: "string option"

text \<open>
  What running an external command produces: the process could not be started (an
  exception from \<open>create_subprocess_exec\<close>), or it exited with a return code and two
  output streams.  A stream is \<open>None\<close> when its bytes are not valid UTF-8, so that
  \<open>decode()\<close> raises.
\<close>

datatype proc_result =
    SpawnFailed exn
  | Exited int "string option" "string option"

text \<open>\<open>_run_jules\<close>: the decoded standard output, or the exception raised.\<close>

definition run_jules :: "proc_result \<Rightarrow> exn + string" where
  "run_jules p =
     (case p of
        SpawnFailed e \<Rightarrow> Inl e
      | Exited returncode out err \<Rightarrow>
          if returncode \<noteq> 0 then
            (case err of None \<Rightarrow> Inl UnicodeDecodeError | Some _ \<Rightarrow> Inl RuntimeError)
          else (case out of None \<Rightarrow> Inl UnicodeDecodeError | Some s \<Rightarrow> Inr s))"

text \<open>The external command has failed when it did not start or exited with a non-zero code.\<close>

definition command_failed :: "proc_result \<Rightarrow> bool" where
  "command_failed p =
     (case p of SpawnFailed _ \<Rightarrow> True | Exited returncode _ _ \<Rightarrow> returncode \<noteq> 0)"

text \<open>
  \<open>JulesWrapper.cancel\<close>.  The host answers the command line; the wrapper's
  \<open>_active_jobs\<close> dictionary is passed in and returned.
\<close>

definition cancel ::
  "(string list \<Rightarrow> proc_result) \<Rightarrow> (string \<rightharpoonup> JobStatus) \<Rightarrow> string
     \<Rightarrow> bool \<times> (string \<rightharpoonup> JobStatus)" where
  "cancel host active_jobs jid =
     (case run_jules (host [''jules'', ''cancel'', jid]) of
        Inr _ \<Rightarrow>
          (True,
           case active_jobs jid of
             Some j \<Rightarrow> active_jobs(jid \<mapsto> j\<lparr>state := ''CANCELLED''\<rparr>)
           | None \<Rightarrow> active_jobs)
      | Inl _ \<Rightarrow> (False, active_jobs))"

text \<open>A tracked job and two hosts, one whose commands fail and one whose commands succeed.\<close>

definition job1 :: JobStatus where
  "job1 = \<lparr>job_id = ''j1'', state = ''RUNNING'', current_step = ''Working'',
           pr_link = None, branch_name = Some ''polecat-0a1b2c3d'', started_at = Some 0,
           completed_at = None, job_error = None\<rparr>"

definition jobs1 :: "string \<rightharpoonup> JobStatus" where
  "jobs1 = [''j1'' \<mapsto> job1]"

definition failing_host :: "string list \<Rightarrow> proc_result" where
  "failing_host cmd = Exited 1 (Some []) (Some ''no such job'')"

definition working_host :: "string list \<Rightarrow> proc_result" where
  "working_host cmd = Exited 0 (Some ''cancelled'') (Some [])"

section \<open>Agent step loop (agent/core.py)\<close>

definition MAX_STEPS :: int where
  "MAX_STEPS = 200"

record ToolCall =
  tc_id :: string
  tc_name :: string
  tc_arguments :: arguments

record CompletionResult =
  res_content :: string
  res_tool_calls :: "ToolCall list"
  res_input_tokens :: int
  res_output_tokens :: int
  res_model :: string
  res_stop_reason :: string

text \<open>The entries of the message history, by role.\<close>

datatype message =
    UserMsg string
  | AssistantMsg string "ToolCall list"
  | ToolResultMsg string string pyval

fun msg_content :: "message \<Rightarrow> pyval" where
  "msg_content (UserMsg c) = PStr c"
| "msg_content (AssistantMsg c tcs) = PStr c"
| "msg_content (ToolResultMsg cid nm c) = c"

text \<open>
  The values the system prompt is rendered from (working directory, total budget, spent,
  remaining, estimated steps left); the rendering itself is not modelled.
\<close>

record system_prompt =
  sp_cwd :: string
  sp_total_budget :: real
  sp_spent :: real
  sp_remaining :: real
  sp_est_steps :: int

text \<open>A call \<open>provider.complete(messages, tools, model, system, max_tokens)\<close>; \<open>tools\<close> is constant.\<close>

record request =
  req_messages :: "message list"
  req_model :: string
  req_system :: system_prompt
  req_max_tokens :: int

text \<open>
  A provider answers a request with a completion or raises.  Its answer may differ from
  call to call, so it also receives the number of provider calls made before this one.
\<close>

type_synonym provider_fn = "nat \<Rightarrow> request \<Rightarrow> pyexn + CompletionResult"

text \<open>What the agent shows on the terminal, as a log of the calls on \<open>display\<close>.\<close>

datatype event =
    Banner string real
  | ProvidersDetected "string list"
  | StepStart int string string
  | StepCost real
  | AssistantMessage string
  | ToolCallShown string arguments
  | ToolResultShown string pyval
  | TaskCompleteShown pyval
  | BudgetExhausted
  | ErrorShown string
  | SummaryShown

text \<open>
  The parts of an agent that stay fixed during a session, and its mutable state.  The
  log \<open>provider_calls\<close> holds every provider call initiated, in order.
\<close>

record agent_env =
  env_task :: string
  env_working_dir :: string
  env_providers :: "(string \<times> provider_fn) list"
  env_router :: ModelRouter
  env_host :: host

record agent =
  budget_tracker :: BudgetTracker
  messages :: "message list"
  completed :: bool
  agent_files :: fsmap
  display_log :: "event list"
  provider_calls :: "(string \<times> request) list"

definition show_event :: "event \<Rightarrow> agent \<Rightarrow> agent" where
  "show_event ev a = a\<lparr>display_log := display_log a @ [ev]\<rparr>"

text \<open>\<open>task.split()\<close>: the maximal runs of characters that are not whitespace.\<close>

fun py_words_acc :: "string \<Rightarrow> string \<Rightarrow> string list" where
  "py_words_acc cur [] = (if cur = [] then [] else [cur])"
| "py_words_acc cur (c # cs) =
     (if py_isspace c then (if cur = [] then [] else [cur]) @ py_words_acc [] cs
      else py_words_acc (cur @ [c]) cs)"

definition py_words :: "string \<Rightarrow> string list" where
  "py_words s = py_words_acc [] s"

definition estimate_steps :: "string \<Rightarrow> BudgetTracker \<Rightarrow> BudgetTracker" where
  "estimate_steps the_task b =
     (let n_words = length (py_words the_task)
      in if n_words < 30 then set_estimated_remaining_steps 5 b
         else if n_words < 100 then set_estimated_remaining_steps 10 b
         else set_estimated_remaining_steps 20 b)"

text \<open>
  \<open>Agent.__init__\<close> with the providers given: no provider makes it exit, and the router's
  constructor may raise.
\<close>

datatype 'a init_result = NoProviders | InitRaised exn | Initialised 'a

definition Agent_init ::
  "string \<Rightarrow> real \<Rightarrow> string \<Rightarrow> (string \<times> provider_fn) list \<Rightarrow> host \<Rightarrow> fsmap
     \<Rightarrow> (agent_env \<times> agent) init_result" where
  "Agent_init the_task budget working_dir provs h files0 =
     (if provs = [] then NoProviders
      else
        (case ModelRouter_init (map fst provs) of
           Inl e \<Rightarrow> InitRaised e
         | Inr r \<Rightarrow>
             Initialised
               (\<lparr>env_task = the_task, env_working_dir = working_dir, env_providers = provs,
                 env_router = r, env_host = h\<rparr>,
                \<lparr>budget_tracker = estimate_steps the_task (BudgetTracker_init budget),
                 messages = [], completed = False, agent_files = files0,
                 display_log = [], provider_calls = []\<rparr>)))"

definition build_system_prompt :: "agent_env \<Rightarrow> agent \<Rightarrow> system_prompt" where
  "build_system_prompt env a =
     \<lparr>sp_cwd = env_working_dir env,
      sp_total_budget = total_budget (budget_tracker a),
      sp_spent = spent (budget_tracker a),
      sp_remaining = remaining (budget_tracker a),
      sp_est_steps = estimated_remaining_steps (budget_tracker a)\<rparr>"

text \<open>\<open>_step_type_for\<close>: both branches after the first step give \<open>EXECUTE\<close>.\<close>

definition step_type_for :: "int \<Rightarrow> agent \<Rightarrow> StepType" where
  "step_type_for n a =
     (if n = 1 then PLAN
      else if messages a \<noteq> []
              \<and> (case last (messages a) of ToolResultMsg _ _ _ \<Rightarrow> True | _ \<Rightarrow> False)
      then EXECUTE
      else EXECUTE)"

definition estimate_context_tokens :: "agent \<Rightarrow> int" where
  "estimate_context_tokens a =
     int (sum_list (map (\<lambda>m. length (py_str (msg_content m))) (messages a))) div 4"

fun tier_name :: "ModelTier \<Rightarrow> string" where
  "tier_name BUDGET = ''BUDGET''"
| "tier_name ECONOMY = ''ECONOMY''"
| "tier_name STANDARD = ''STANDARD''"
| "tier_name PREMIUM = ''PREMIUM''"

text \<open>One call of a provider's \<open>complete\<close>, entered in the log before it is answered.\<close>

definition call_provider ::
  "string \<Rightarrow> provider_fn \<Rightarrow> request \<Rightarrow> agent \<Rightarrow> (pyexn + CompletionResult) \<times> agent" where
  "call_provider pname prov req a =
     (prov (length (provider_calls a)) req,
      a\<lparr>provider_calls := provider_calls a @ [(pname, req)]\<rparr>)"

text \<open>
  \<open>_try_fallback\<close>: the other providers in order, each with the cheapest model and 1024
  output tokens; an exception of an attempt moves on to the next provider.
\<close>

fun try_fallback_from ::
  "agent_env \<Rightarrow> string \<Rightarrow> (string \<times> provider_fn) list \<Rightarrow> agent
     \<Rightarrow> CompletionResult option \<times> agent" where
  "try_fallback_from env failed_provider [] a =
     (None, show_event (ErrorShown ''All providers failed.'') a)"
| "try_fallback_from env failed_provider ((pname, prov) # rest) a =
     (if pname = failed_provider then try_fallback_from env failed_provider rest a
      else
        (case cheapest (env_router env) of
           Inl e \<Rightarrow> try_fallback_from env failed_provider rest a
         | Inr ch \<Rightarrow>
             (case call_provider pname prov
                     \<lparr>req_messages = messages a, req_model = model_id ch,
                      req_system = build_system_prompt env a, req_max_tokens = 1024\<rparr> a of
                (Inr result, a') \<Rightarrow> (Some result, a')
              | (Inl e, a') \<Rightarrow> try_fallback_from env failed_provider rest a')))"

definition try_fallback ::
  "agent_env \<Rightarrow> string \<Rightarrow> agent \<Rightarrow> CompletionResult option \<times> agent" where
  "try_fallback env failed_provider a =
     try_fallback_from env failed_provider (env_providers env) a"

text \<open>
  The loop over the tool calls of one turn: \<open>task_complete\<close> ends it, every other call
  goes to the sandbox and its output is appended to the history.
\<close>

fun process_tool_calls :: "agent_env \<Rightarrow> ToolCall list \<Rightarrow> agent \<Rightarrow> exn + agent" where
  "process_tool_calls env [] a = Inr a"
| "process_tool_calls env (tc # tcs) a =
     (let a1 = show_event (ToolCallShown (tc_name tc) (tc_arguments tc)) a
      in if tc_name tc = ''task_complete''
         then Inr (show_event
                     (TaskCompleteShown (arg (tc_arguments tc) ''summary'' (PStr [])))
                     (a1\<lparr>completed := True\<rparr>))
         else
           (case execute (env_host env) (env_working_dir env) (agent_files a1)
                   (tc_name tc) (tc_arguments tc) of
              (Inl e, files') \<Rightarrow> Inl (fst e)
            | (Inr tool_output, files') \<Rightarrow>
                process_tool_calls env tcs
                  ((show_event (ToolResultShown (tc_name tc) tool_output)
                      (a1\<lparr>agent_files := files'\<rparr>))
                   \<lparr>messages := messages a1
                        @ [ToolResultMsg (tc_id tc) (tc_name tc) tool_output]\<rparr>)))"

text \<open>The rest of a step once a completion has arrived.\<close>

definition after_call ::
  "agent_env \<Rightarrow> int \<Rightarrow> ModelInfo \<Rightarrow> CompletionResult \<Rightarrow> agent \<Rightarrow> exn + agent" where
  "after_call env n model_info result a =
     (let (c, b') = record_call (budget_tracker a) (model_id model_info)
                      (res_input_tokens result) (res_output_tokens result)
                      (input_cost_per_1m model_info) (output_cost_per_1m model_info) n;
          a1 = show_event (StepCost c) (a\<lparr>budget_tracker := b'\<rparr>);
          a2 = (if res_content result \<noteq> []
                then show_event (AssistantMessage (res_content result)) a1 else a1);
          a3 = a2\<lparr>messages := messages a2
                      @ [AssistantMsg (res_content result) (res_tool_calls result)]\<rparr>
      in case (if res_tool_calls result \<noteq> []
               then process_tool_calls env (res_tool_calls result) a3
               else if res_stop_reason result = ''end_turn''
               then Inr (if n > 1 then a3\<lparr>completed := True\<rparr> else a3)
               else Inr a3) of
           Inl e \<Rightarrow> Inl e
         | Inr a4 \<Rightarrow>
             Inr (if \<not> completed a4
                  then a4\<lparr>budget_tracker :=
                            set_estimated_remaining_steps
                              (max (estimated_remaining_steps (budget_tracker a4) - 1) 1)
                              (budget_tracker a4)\<rparr>
                  else a4))"

text \<open>
  The body of the \<open>while\<close> loop for step number \<open>n\<close> (already incremented).  The flag
  returned with the state tells whether the loop goes on (\<open>True\<close>) or was left by
  \<open>break\<close> (\<open>False\<close>).
\<close>

definition agent_step :: "agent_env \<Rightarrow> int \<Rightarrow> agent \<Rightarrow> exn + (agent \<times> bool)" where
  "agent_step env n a =
     (case cheapest (env_router env) of
        Inl e \<Rightarrow> Inl e
      | Inr ch \<Rightarrow>
          (let min_cost = estimate_call_cost ch 500 100
           in if \<not> can_afford (budget_tracker a) min_cost
              then Inr (show_event BudgetExhausted a, False)
              else
                (let step_type = step_type_for n a;
                     context_tokens = estimate_context_tokens a
                 in case select (env_router env) (budget_tracker a) step_type
                           (context_tokens + 500) 1000 of
                      Inl e \<Rightarrow> Inl e
                    | Inr model_info \<Rightarrow>
                        (case map_of (env_providers env) (provider model_info) of
                           None \<Rightarrow> Inl KeyError
                         | Some prov \<Rightarrow>
                             (case max_output_tokens (budget_tracker a)
                                     (input_cost_per_1m model_info)
                                     (output_cost_per_1m model_info)
                                     (context_tokens + 500) of
                                Inl e \<Rightarrow> Inl e
                              | Inr max_tokens \<Rightarrow>
                                  (let a1 = show_event
                                              (StepStart n (model_id model_info)
                                                 (tier_name (tier model_info))) a
                                   in case call_provider (provider model_info) prov
                                             \<lparr>req_messages = messages a1,
                                              req_model = model_id model_info,
                                              req_system = build_system_prompt env a1,
                                              req_max_tokens = max_tokens\<rparr> a1 of
                                        (Inr result, a2) \<Rightarrow>
                                          map_sum id (\<lambda>s. (s, True))
                                            (after_call env n model_info result a2)
                                      | (Inl e, a2) \<Rightarrow>
                                          (case try_fallback env (provider model_info)
                                                  (show_event
                                                     (ErrorShown (''Provider error: '' @ snd e))
                                                     a2) of
                                             (None, a3) \<Rightarrow> Inr (a3, False)
                                           | (Some result, a3) \<Rightarrow>
                                               map_sum id (\<lambda>s. (s, True))
                                                 (after_call env n model_info result a3))))))))"

text \<open>
  The \<open>while\<close> loop of \<open>run\<close>, from the value of \<open>step\<close> at the loop head: it returns the
  final step number and state, or the exception that ended the session.
\<close>

function run_loop :: "agent_env \<Rightarrow> int \<Rightarrow> agent \<Rightarrow> exn + (int \<times> agent)" where
  "run_loop env n a =
     (if \<not> completed a \<and> n < MAX_STEPS
      then (case agent_step env (n + 1) a of
              Inl e \<Rightarrow> Inl e
            | Inr (a', go_on) \<Rightarrow>
                if go_on then run_loop env (n + 1) a' else Inr (n + 1, a'))
      else Inr (n, a))"
  by pat_completeness auto
termination
  by (relation "measure (\<lambda>(env, n, a). nat (MAX_STEPS - n))") auto

declare run_loop.simps [simp del]

definition run :: "agent_env \<Rightarrow> agent \<Rightarrow> exn + agent" where
  "run env a =
     (let a1 = show_event (ProvidersDetected (map fst (env_providers env)))
                 (show_event (Banner (env_task env) (total_budget (budget_tracker a))) a);
          a2 = a1\<lparr>messages := messages a1 @ [UserMsg (env_task env)]\<rparr>
      in case run_loop env 0 a2 of
           Inl e \<Rightarrow> Inl e
         | Inr (n, a3) \<Rightarrow> Inr (show_event SummaryShown a3))"

text \<open>
  A session to exercise the statements below: the task of a few words, a budget of
  0.0005 and the provider \<open>anthropic\<close>, whose completions are empty.
\<close>

definition silent_provider :: provider_fn where
  "silent_provider k req =
     Inr \<lparr>res_content = [], res_tool_calls = [], res_input_tokens = 0,
          res_output_tokens = 0, res_model = req_model req, res_stop_reason = ''end_turn''\<rparr>"

definition anthropic_router :: ModelRouter where
  "anthropic_router =
     \<lparr>models =
        [mk_model ''claude-haiku-3-5-20241022'' ''anthropic'' ECONOMY (80 / 100) 4 200000,
         mk_model ''claude-sonnet-4-20250514'' ''anthropic'' STANDARD 3 15 200000,
         mk_model ''claude-opus-4-20250514'' ''anthropic'' PREMIUM 15 75 200000]\<rparr>"

definition poor_env :: agent_env where
  "poor_env =
     \<lparr>env_task = ''fix the bug'', env_working_dir = ''/w'',
      env_providers = [(''anthropic'', silent_provider)],
      env_router = anthropic_router, env_host = plain_host\<rparr>"

definition poor_agent :: agent where
  "poor_agent =
     \<lparr>budget_tracker = estimate_steps ''fix the bug'' (BudgetTracker_init (5 / 10000)),
      messages = [], completed = False, agent_files = foo_files,
      display_log = [], provider_calls = []\<rparr>"

text \<open>The state of that session when \<open>run\<close> reaches the loop for the first time.\<close>

definition poor_started :: agent where
  "poor_started =
     (show_event (ProvidersDetected [''anthropic''])
        (show_event (Banner ''fix the bug'' (5 / 10000)) poor_agent))
     \<lparr>messages := [UserMsg ''fix the bug'']\<rparr>"

section \<open>Properties of the budget tracker\<close>

lemma remaining_nonneg: "0 \<le> remaining b"
  by (simp add: remaining_def)

lemma estimated_remaining_steps_pos: "1 \<le> estimated_remaining_steps b"
  by (simp add: estimated_remaining_steps_def)

lemma budget_per_step_nonneg: "0 \<le> budget_per_step b"
proof -
  have "0 < real_of_int (estimated_remaining_steps b)"
    using estimated_remaining_steps_pos [of b] by simp
  then show ?thesis
    using remaining_nonneg [of b] by (simp add: budget_per_step_def)
qed

lemma call_cost_nonneg:
  "0 \<le> itok \<Longrightarrow> 0 \<le> otok \<Longrightarrow> 0 \<le> ip \<Longrightarrow> 0 \<le> op \<Longrightarrow> 0 \<le> call_cost itok otok ip op"
  by (simp add: call_cost_def)

lemma realized_cost_eq: "realized_cost c =
  call_cost (rc_input_tokens c) (rc_output_tokens c)
    (rc_input_cost_per_1m c) (rc_output_cost_per_1m c)"
  by (simp add: realized_cost_def call_cost_def add_divide_distrib)

lemma realized_cost_nonneg: "nonneg_call c \<Longrightarrow> 0 \<le> realized_cost c"
  by (simp add: realized_cost_eq nonneg_call_def call_cost_nonneg)

lemma record_one_returns: "fst (record_one b c) = realized_cost c"
  by (simp add: record_one_def record_call_def Let_def realized_cost_eq)

lemma record_one_spent: "spent (snd (record_one b c)) = spent b + realized_cost c"
  by (simp add: record_one_def record_call_def Let_def realized_cost_eq)

lemma record_one_records:
  "map cost (records (snd (record_one b c))) = map cost (records b) @ [realized_cost c]"
  by (simp add: record_one_def record_call_def Let_def realized_cost_eq)

lemma record_one_total: "total_budget (snd (record_one b c)) = total_budget b"
  by (simp add: record_one_def record_call_def Let_def)

lemma record_all_spent: "spent (record_all b cs) = spent b + sum_list (map realized_cost cs)"
  by (induction cs arbitrary: b) (simp_all add: record_one_spent)

lemma record_all_records:
  "map cost (records (record_all b cs)) = map cost (records b) @ map realized_cost cs"
  by (induction cs arbitrary: b) (simp_all add: record_one_records)

lemma record_all_append: "record_all b (xs @ ys) = record_all (record_all b xs) ys"
  by (induction xs arbitrary: b) simp_all

lemma sum_list_realized_nonneg:
  "\<forall>c \<in> set cs. nonneg_call c \<Longrightarrow> 0 \<le> sum_list (map realized_cost cs)"
  by (induction cs) (simp_all add: realized_cost_nonneg)

lemma record_all_spent_mono:
  assumes "\<forall>c \<in> set cs. nonneg_call c" and "i \<le> j"
  shows "spent (record_all b (take i cs)) \<le> spent (record_all b (take j cs))"
proof -
  have split: "take j cs = take i cs @ take (j - i) (drop i cs)"
    using assms(2) by (metis le_add_diff_inverse take_add)
  have "\<forall>c \<in> set (take (j - i) (drop i cs)). nonneg_call c"
    using assms(1) by (meson in_set_dropD in_set_takeD)
  then have "0 \<le> sum_list (map realized_cost (take (j - i) (drop i cs)))"
    by (rule sum_list_realized_nonneg)
  then show ?thesis
    by (simp add: split record_all_append record_all_spent)
qed

text \<open>
  Exact arithmetic only.  With the floats of \<open>budget.py\<close> read as reals, and an output
  price that is not zero or no budget left for output, \<open>max_output_tokens\<close> returns an
  integer in \<open>[256, 16384]\<close>.
\<close>

lemma max_output_tokens_clamped:
  assumes "op \<noteq> 0 \<or> budget_per_step b - real_of_int n * ip / 1000000 \<le> 0"
  shows "\<exists>k. max_output_tokens b ip op n = Inr k \<and> 256 \<le> k \<and> k \<le> 16384 \<and>
     k = (if budget_per_step b - real_of_int n * ip / 1000000 \<le> 0 then 256
          else max 256 (min (py_int ((budget_per_step b - real_of_int n * ip / 1000000)
                                      / (op / 1000000))) 16384))"
  using assms by (auto simp: max_output_tokens_def Let_def)

lemma max_output_tokens_clamped_example:
  "(15::real) \<noteq> 0 \<and> max_output_tokens (BudgetTracker_init 1) 3 15 2000 = Inr 6266"
proof -
  have h: "(15::real) \<noteq> 0 \<or>
      budget_per_step (BudgetTracker_init 1) - real_of_int 2000 * 3 / 1000000 \<le> 0"
    by simp
  have bps: "budget_per_step (BudgetTracker_init 1) = 1 / 10"
    by (simp add: budget_per_step_def remaining_def estimated_remaining_steps_def
        BudgetTracker_init_def)
  show ?thesis
    using max_output_tokens_clamped [OF h] by (simp add: bps py_int_def)
qed

text \<open>
  With in-price 0, out-price 0 and 2000 estimated input tokens, on a fresh tracker with
  budget 1, the call raises \<open>ZeroDivisionError\<close>.
\<close>

lemma max_output_tokens_zero_price_raises:
  "max_output_tokens (BudgetTracker_init 1) 0 0 2000 = Inl ZeroDivisionError"
  by (simp add: max_output_tokens_def BudgetTracker_init_def budget_per_step_def
      remaining_def estimated_remaining_steps_def)

text \<open>
  Exact arithmetic only.  With the floats of \<open>budget.py\<close> read as reals, \<open>spent\<close> is the
  sum of the costs of the appended records, and is non-decreasing when token counts and
  prices are non-negative.
\<close>

lemma record_spent_is_sum_and_monotone:
  "spent (record_all (BudgetTracker_init tb) cs)
     = sum_list (map cost (records (record_all (BudgetTracker_init tb) cs)))
   \<and> map cost (records (record_all (BudgetTracker_init tb) cs)) = map realized_cost cs
   \<and> fst (record_one b c) = realized_cost c
   \<and> spent (snd (record_one b c)) = spent b + fst (record_one b c)
   \<and> ((\<forall>c \<in> set cs. nonneg_call c) \<longrightarrow>
        (\<forall>i j. i \<le> j \<longrightarrow>
           spent (record_all b (take i cs)) \<le> spent (record_all b (take j cs))))"
proof -
  have recs: "map cost (records (record_all (BudgetTracker_init tb) cs)) = map realized_cost cs"
    by (simp add: record_all_records BudgetTracker_init_def)
  have sp: "spent (record_all (BudgetTracker_init tb) cs) = sum_list (map realized_cost cs)"
    by (simp add: record_all_spent BudgetTracker_init_def)
  have sum: "spent (record_all (BudgetTracker_init tb) cs)
     = sum_list (map cost (records (record_all (BudgetTracker_init tb) cs)))"
    using sp recs by (metis (no_types) map_map comp_def)
  show ?thesis
    using sum recs record_one_returns record_one_spent record_all_spent_mono by simp
qed

lemma record_spent_is_sum_and_monotone_example:
  "nonneg_call call_a
   \<and> spent (record_all (BudgetTracker_init 1) (take 1 [call_a, call_a]))
       \<le> spent (record_all (BudgetTracker_init 1) (take 2 [call_a, call_a]))
   \<and> spent (record_all (BudgetTracker_init 1) [call_a, call_a]) = 3 / 100"
proof -
  have n: "nonneg_call call_a"
    by (simp add: nonneg_call_def call_a_def)
  then have h: "\<forall>c \<in> set [call_a, call_a]. nonneg_call c"
    by simp
  have one: "(1::nat) \<le> 2" by simp
  have rc: "realized_cost call_a = 3 / 200"
    by (simp add: realized_cost_def call_a_def)
  from record_spent_is_sum_and_monotone [of 1 "[call_a, call_a]" "BudgetTracker_init 1" call_a]
  have sum: "spent (record_all (BudgetTracker_init 1) [call_a, call_a])
              = sum_list (map realized_cost [call_a, call_a])"
    and mono: "spent (record_all (BudgetTracker_init 1) (take 1 [call_a, call_a]))
       \<le> spent (record_all (BudgetTracker_init 1) (take 2 [call_a, call_a]))"
    using h one by (metis, blast)
  show ?thesis using n sum mono by (simp add: rc)
qed

text \<open>
  A call with a negative token count has a negative realized cost and lowers \<open>spent\<close>.
\<close>

lemma record_negative_tokens_lowers_spent:
  "spent (snd (record_one (BudgetTracker_init 1) call_neg)) < spent (BudgetTracker_init 1)"
  by (simp add: record_one_def record_call_def Let_def call_cost_def call_neg_def
      BudgetTracker_init_def)

section \<open>Properties of the model router\<close>

lemma py_min_from_mem: "py_min_from f x ys \<in> insert x (set ys)"
  by (induction ys arbitrary: x) auto

lemma py_min_from_le_best: "f (py_min_from f x ys) \<le> f x"
proof (induction ys arbitrary: x)
  case Nil show ?case by simp
next
  case (Cons y ys)
  have "f (py_min_from f (if f y < f x then y else x) ys) \<le> f (if f y < f x then y else x)"
    by (rule Cons.IH)
  then show ?case by (simp split: if_splits)
qed

lemma py_min_from_le: "y \<in> set ys \<Longrightarrow> f (py_min_from f x ys) \<le> f y"
proof (induction ys arbitrary: x)
  case Nil then show ?case by simp
next
  case (Cons z zs)
  show ?case
  proof (cases "y = z")
    case True
    have "f (py_min_from f (if f z < f x then z else x) zs) \<le> f (if f z < f x then z else x)"
      by (rule py_min_from_le_best)
    with True show ?thesis by (simp split: if_splits)
  next
    case False
    with Cons.prems have "y \<in> set zs" by simp
    then show ?thesis using Cons.IH by simp
  qed
qed

lemma cheapest_ok:
  assumes "models r \<noteq> []"
  shows "\<exists>m. cheapest r = Inr m \<and> m \<in> set (models r) \<and>
             (\<forall>m' \<in> set (models r). default_cost m \<le> default_cost m')"
proof -
  from assms obtain x ys where xy: "models r = x # ys" by (cases "models r") auto
  let ?m = "py_min_from default_cost x ys"
  have 1: "cheapest r = Inr ?m" by (simp add: cheapest_def py_min_key_def xy)
  have 2: "?m \<in> set (models r)" using py_min_from_mem[of default_cost x ys] by (simp add: xy)
  have 3: "\<forall>m' \<in> set (models r). default_cost ?m \<le> default_cost m'"
    using py_min_from_le[of _ ys default_cost x] py_min_from_le_best[of default_cost x ys]
    by (auto simp: xy)
  from 1 2 3 show ?thesis by blast
qed

lemma sort_key_Nil_iff: "sort_key f xs = [] \<longleftrightarrow> xs = []"
  using length_sort[of f xs] by (metis length_0_conv)

lemma set_py_sort_reverse: "set (py_sort_reverse f xs) = set xs"
  by (simp add: py_sort_reverse_def)

lemma candidates_subset: "(m, c) \<in> set (candidates_of r psb it ot) \<Longrightarrow> m \<in> set (models r)"
  by (auto simp: candidates_of_def)

lemma select_scored_mem:
  assumes "candidates_of r psb it ot \<noteq> []"
  shows "\<exists>m. (case py_sort_reverse (\<lambda>x. fst (snd x))
                 (map (\<lambda>(m, c). (m, score_of w psb m c, c)) (candidates_of r psb it ot)) of
               [] \<Rightarrow> Inl IndexError | x # _ \<Rightarrow> Inr (fst x)) = Inr m \<and> m \<in> set (models r)"
proof -
  let ?sc = "map (\<lambda>(m, c). (m, score_of w psb m c, c)) (candidates_of r psb it ot)"
  let ?so = "py_sort_reverse (\<lambda>x. fst (snd x)) ?sc"
  have ne: "?so \<noteq> []" using assms by (simp add: py_sort_reverse_def sort_key_Nil_iff)
  then obtain x xs where so: "?so = x # xs" by (cases ?so) auto
  then have "x \<in> set ?so" by simp
  then have "x \<in> set ?sc" by (simp only: set_py_sort_reverse)
  then obtain m c where "x = (m, score_of w psb m c, c)" "(m, c) \<in> set (candidates_of r psb it ot)"
    by auto
  then have "fst x \<in> set (models r)" using candidates_subset by fastforce
  with so show ?thesis by simp
qed

lemma select_in_models:
  assumes "models r \<noteq> []"
  shows "\<exists>m. select r b st it ot = Inr m \<and> m \<in> set (models r) \<and>
     (utilization b > 95 / 100 \<longrightarrow>
        cheapest r = Inr m \<and> (\<forall>m' \<in> set (models r). default_cost m \<le> default_cost m'))"
proof (cases "utilization b > 95 / 100")
  case True
  then have "select r b st it ot = cheapest r" by (simp add: select_def)
  with cheapest_ok[OF assms] True show ?thesis by auto
next
  case False
  show ?thesis
  proof (cases "candidates_of r (budget_per_step b) it ot = []")
    case True
    with False have "select r b st it ot = cheapest r" by (simp add: select_def)
    with cheapest_ok[OF assms] False show ?thesis by auto
  next
    case ne: False
    from select_scored_mem[OF ne] False ne show ?thesis
      by (simp add: select_def Let_def)
  qed
qed

lemma ModelRouter_init_models:
  assumes "ModelRouter_init ps = Inr r"
  shows "models r \<noteq> []"
    and "set (models r) = {m \<in> set MODEL_REGISTRY. provider m \<in> set ps}"
  using assms
  by (auto simp: ModelRouter_init_def Let_def sort_key_Nil_iff split: if_splits)

lemma ModelRouter_init_google: "ModelRouter_init [''google''] = Inr google_router"
  by (simp add: ModelRouter_init_def MODEL_REGISTRY_def mk_model_def google_router_def
      default_cost_def estimate_call_cost_def)

lemma py_sort_reverse_two: "py_sort_reverse f [a, b] = (if f b \<le> f a then [a, b] else [b, a])"
  by (simp add: py_sort_reverse_def)

lemma STEP_CAPABILITY_WEIGHT_pos: "0 < STEP_CAPABILITY_WEIGHT st"
  by (cases st) simp_all

lemma utilization_tiny: "\<not> utilization tiny_budget > 95 / 100"
  by (simp add: utilization_def tiny_budget_def BudgetTracker_init_def)

lemma budget_per_step_tiny: "budget_per_step tiny_budget = 1 / 10000000"
  by (simp add: budget_per_step_def remaining_def estimated_remaining_steps_def
      tiny_budget_def BudgetTracker_init_def)

lemma candidates_google_tiny:
  "candidates_of google_router (1 / 10000000) (- 4) 1
     = [(gemini_15_flash, 0), (gemini_20_flash, 0)]"
  by (simp add: candidates_of_def google_router_def gemini_15_flash_def gemini_20_flash_def
      mk_model_def estimate_call_cost_def)

text \<open>
  Claim C3.  A router built by its constructor has a non-empty model list, the registry
  models of the available providers.  For every step type, token estimates and tracker
  state, \<open>select\<close> returns one of the router's models; and whenever utilization exceeds
  0.95 the result is the cheapest model (\<open>_cheapest()\<close>, minimal default-estimate cost),
  whatever the step type.
\<close>

theorem select_available_and_budget_guard:
  assumes "ModelRouter_init providers = Inr r"
  shows "\<exists>m. select r b st it ot = Inr m \<and> m \<in> set (models r)
            \<and> m \<in> set MODEL_REGISTRY \<and> provider m \<in> set providers
            \<and> (utilization b > 95 / 100 \<longrightarrow>
                 cheapest r = Inr m \<and>
                 (\<forall>m' \<in> set (models r). default_cost m \<le> default_cost m'))"
proof -
  have ne: "models r \<noteq> []" by (rule ModelRouter_init_models(1) [OF assms])
  from select_in_models [OF ne, of b st it ot]
  obtain m where m: "select r b st it ot = Inr m" "m \<in> set (models r)"
    "utilization b > 95 / 100 \<longrightarrow>
       cheapest r = Inr m \<and> (\<forall>m' \<in> set (models r). default_cost m \<le> default_cost m')"
    by blast
  from m(2) have "m \<in> set MODEL_REGISTRY" "provider m \<in> set providers"
    by (simp_all add: ModelRouter_init_models(2) [OF assms])
  with m show ?thesis by blast
qed

theorem select_available_and_budget_guard_witness:
  "ModelRouter_init [''google''] = Inr google_router
   \<and> (\<exists>m. select google_router nearly_spent SIMPLE 2000 1000 = Inr m
          \<and> m \<in> set (models google_router)
          \<and> cheapest google_router = Inr m)"
proof -
  have h: "ModelRouter_init [''google''] = Inr google_router"
    by (rule ModelRouter_init_google)
  have u: "utilization nearly_spent > 95 / 100"
    by (simp add: utilization_def nearly_spent_def BudgetTracker_init_def)
  show ?thesis
    using h u select_available_and_budget_guard [OF h, of nearly_spent SIMPLE 2000 1000]
    by blast
qed

text \<open>
  Claim C4, amended.  Suppose exactly two models are candidates (both fit the per-step
  budget) and their estimated call costs are equal.  While utilization is at most 0.95,
  their savings scores coincide and the score is decided by the tier alone, for every step
  type: \<open>select\<close> returns the higher-tier model for \<open>execute\<close> and for \<open>simple\<close> alike (and
  for \<open>plan\<close> and \<open>verify\<close>); when the tiers are equal as well the scores tie, and the
  stable sort keeps the candidate that comes first in the router's order (cheapest default
  estimate first).  Above 0.95 utilization \<open>select\<close> returns the cheapest model of the
  router, whatever the candidates and the step type.
\<close>

theorem select_equal_cost_prefers_tier:
  assumes "candidates_of r (budget_per_step b) it ot = [(m1, c), (m2, c)]"
  shows "(\<not> utilization b > 95 / 100 \<longrightarrow>
            select r b st it ot =
              Inr (if tier_value (tier m1) < tier_value (tier m2) then m2 else m1))
       \<and> (utilization b > 95 / 100 \<longrightarrow> select r b st it ot = cheapest r)"
proof -
  let ?w = "STEP_CAPABILITY_WEIGHT st"
  let ?B = "budget_per_step b"
  have w: "0 < ?w" by (rule STEP_CAPABILITY_WEIGHT_pos)
  have sc: "score_of ?w ?B m2 c \<le> score_of ?w ?B m1 c \<longleftrightarrow>
            tier_value (tier m2) \<le> tier_value (tier m1)"
    using w by (simp add: score_of_def Let_def divide_le_cancel)
  have low: "\<not> utilization b > 95 / 100 \<Longrightarrow>
      select r b st it ot =
        Inr (if tier_value (tier m1) < tier_value (tier m2) then m2 else m1)"
    using assms sc by (auto simp: select_def Let_def py_sort_reverse_two)
  have high: "utilization b > 95 / 100 \<Longrightarrow> select r b st it ot = cheapest r"
    by (simp add: select_def)
  show ?thesis using low high by blast
qed

theorem select_equal_cost_prefers_tier_witness:
  "ModelRouter_init [''google''] = Inr google_router
   \<and> candidates_of google_router (budget_per_step tiny_budget) (- 4) 1
       = [(gemini_15_flash, 0), (gemini_20_flash, 0)]
   \<and> \<not> utilization tiny_budget > 95 / 100
   \<and> select google_router tiny_budget EXECUTE (- 4) 1 = Inr gemini_20_flash
   \<and> utilization nearly_spent > 95 / 100
   \<and> select google_router nearly_spent EXECUTE 2000 1000 = cheapest google_router"
proof -
  have h0: "ModelRouter_init [''google''] = Inr google_router"
    by (rule ModelRouter_init_google)
  have h1: "\<not> utilization tiny_budget > 95 / 100"
    by (rule utilization_tiny)
  have h2: "candidates_of google_router (budget_per_step tiny_budget) (- 4) 1
       = [(gemini_15_flash, 0), (gemini_20_flash, 0)]"
    by (simp only: budget_per_step_tiny candidates_google_tiny)
  have t: "tier_value (tier gemini_15_flash) < tier_value (tier gemini_20_flash)"
    by (simp add: gemini_15_flash_def gemini_20_flash_def mk_model_def)
  have u: "utilization nearly_spent > 95 / 100"
    by (simp add: utilization_def nearly_spent_def BudgetTracker_init_def)
  have a: "select google_router tiny_budget EXECUTE (- 4) 1 = Inr gemini_20_flash"
    using h1 t select_equal_cost_prefers_tier [OF h2, of EXECUTE] by simp
  have b: "select google_router nearly_spent EXECUTE 2000 1000 = cheapest google_router"
    using u by (simp add: select_def)
  show ?thesis using h0 h1 h2 a u b by blast
qed

text \<open>
  Claim C4 as stated fails for \<open>simple\<close>.  On the router built for the provider \<open>google\<close>,
  with a fresh budget of one millionth and the estimates \<open>-4\<close> input and \<open>1\<close> output
  tokens, exactly the two flash models are candidates, both at cost 0; \<open>select\<close> with step
  type \<open>simple\<close> returns \<open>gemini-2.0-flash\<close>, the economy-tier model, not the budget-tier
  \<open>gemini-1.5-flash\<close>, which is also the cheaper one by its default estimate.
\<close>

theorem select_simple_equal_cost_returns_higher_tier:
  "ModelRouter_init [''google''] = Inr google_router
   \<and> candidates_of google_router (budget_per_step tiny_budget) (- 4) 1
       = [(gemini_15_flash, 0), (gemini_20_flash, 0)]
   \<and> tier gemini_15_flash = BUDGET \<and> tier gemini_20_flash = ECONOMY
   \<and> default_cost gemini_15_flash < default_cost gemini_20_flash
   \<and> select google_router tiny_budget SIMPLE (- 4) 1 = Inr gemini_20_flash
   \<and> gemini_20_flash \<noteq> gemini_15_flash"
proof -
  have h0: "ModelRouter_init [''google''] = Inr google_router"
    by (rule ModelRouter_init_google)
  have h2: "candidates_of google_router (budget_per_step tiny_budget) (- 4) 1
       = [(gemini_15_flash, 0), (gemini_20_flash, 0)]"
    by (simp only: budget_per_step_tiny candidates_google_tiny)
  have t: "tier gemini_15_flash = BUDGET" "tier gemini_20_flash = ECONOMY"
    "default_cost gemini_15_flash < default_cost gemini_20_flash"
    "gemini_20_flash \<noteq> gemini_15_flash"
    by (simp_all add: gemini_15_flash_def gemini_20_flash_def mk_model_def default_cost_def
        estimate_call_cost_def)
  have u: "utilization tiny_budget = 0"
    by (simp add: utilization_def tiny_budget_def BudgetTracker_init_def)
  have s: "select google_router tiny_budget SIMPLE (- 4) 1 = Inr gemini_20_flash"
    unfolding select_def Let_def h2 u
    by (simp add: py_sort_reverse_two score_of_def budget_per_step_tiny
        gemini_15_flash_def gemini_20_flash_def mk_model_def)
  show ?thesis using h0 h2 t s by blast
qed

section \<open>Properties of the task plan store\<close>

lemma mark_line_no_match: "match_task_line line = None \<Longrightarrow> mark_line t mk line = line"
  by (simp add: mark_line_def)

lemma mark_line_other_text:
  "match_task_line line = Some (m, g) \<Longrightarrow> py_strip g \<noteq> t \<Longrightarrow> mark_line t mk line = line"
  by (simp add: mark_line_def)

lemma py_find_from_skip:
  "c \<notin> set ws \<Longrightarrow> py_find_from i c (ws @ c # rest) = i + int (length ws)"
  by (induction ws arbitrary: i) auto

lemma dash_not_space: "\<not> py_isspace (CHR ''-'')"
  by (simp add: py_isspace_def)

text \<open>
  On a task line whose bullet is \<open>-\<close> the rewrite keeps exactly the indentation in front
  of the bullet.
\<close>

lemma mark_line_dash:
  assumes "match_task_line line = Some (m, g)" "py_strip g = t"
    and "dropWhile py_isspace line = CHR ''-'' # rest"
  shows "mark_line t mk line = takeWhile py_isspace line @ ''- '' @ mk @ '' '' @ t"
proof -
  let ?ws = "takeWhile py_isspace line"
  have line: "line = ?ws @ CHR ''-'' # rest"
    using assms(3) by (metis takeWhile_dropWhile_id)
  have "CHR ''-'' \<notin> set ?ws"
    using dash_not_space by (metis set_takeWhileD)
  then have "py_find_from 0 (CHR ''-'') (?ws @ CHR ''-'' # rest) = 0 + int (length ?ws)"
    by (rule py_find_from_skip)
  with line have "py_find line (CHR ''-'') = int (length ?ws)"
    by (simp add: py_find_def)
  moreover have "take (length ?ws) line = ?ws"
    by (metis append_eq_conv_conj line)
  ultimately have "py_slice_to line (py_find line (CHR ''-'')) = ?ws"
    by (simp add: py_slice_to_def)
  then show ?thesis using assms(1,2) by (simp add: mark_line_def)
qed

lemma match_task_line_marker:
  "match_task_line line = Some (m, g) \<Longrightarrow> m = CHR '' '' \<or> m = CHR ''x'' \<or> m = CHR ''/''"
  by (auto simp: match_task_line_def split: list.splits if_splits option.splits)

lemma parse_line_status:
  assumes "match_task_line line = Some (m, g)"
  shows "parse_line line =
     Some \<lparr>task_status = (if m = CHR ''x'' then ''done''
                           else if m = CHR ''/'' then ''running'' else ''pending''),
           task_text = py_strip g, original_line = line\<rparr>"
  using match_task_line_marker [OF assms] assms
  by (auto simp: parse_line_def py_lower_char_def)

lemma get_next_pending_task_first:
  "get_next_pending_task f =
     map_option task_text (find (\<lambda>t. task_status t = ''pending'') (read_task_plan f))"
proof -
  have "(case filter P xs of [] \<Rightarrow> None | t # _ \<Rightarrow> Some (h t)) = map_option h (find P xs)"
    for P :: "task \<Rightarrow> bool" and xs and h :: "task \<Rightarrow> string"
    by (induction xs) auto
  then show ?thesis by (simp add: get_next_pending_task_def)
qed

text \<open>
  Claim C7 fails on the code for task lines whose bullet is \<open>*\<close>, which the task pattern
  accepts: the indentation is cut at the first \<open>-\<close> of the line, and when the line has
  none, \<open>find\<close> returns \<open>-1\<close> and the slice keeps the whole line but its last character.
  Marking the task of the one-line plan \<open>* [ ] task\<close> as done writes
  \<open>* [ ] tas- [x] task\<close>, not a line made of the original indentation, the marker and
  the text.
\<close>

theorem mark_task_status_star_bullet:
  "match_task_line ''* [ ] task'' = Some (CHR '' '', ''task'')
   \<and> mark_task_status (Some star_plan) ''task'' ''done''
       = Some (''* [ ] tas- [x] task'' @ [CHR 0x0A])"
  by (simp add: star_plan_def mark_task_status_def splitlines_def py_linebreak_def
      mark_line_def match_task_line_def py_isspace_def match_tail_def dot_plus_end_def
      py_strip_def marker_for_def py_find_def py_slice_to_def)

text \<open>
  Claim C8 fails on the code for the marker \<open>X\<close>: the pattern's character class is
  \<open>[ x/]\<close>, so a line \<open>- [X] Ship it\<close> does not match and is treated as prose, although
  the status computation lower-cases the marker to accept it.  The plan below has no
  entry at all.
\<close>

theorem read_task_plan_uppercase_marker:
  "parse_line ''- [X] Ship it'' = None
   \<and> read_task_plan (Some upper_plan) = []
   \<and> get_next_pending_task (Some upper_plan) = None"
  by (simp add: upper_plan_def get_next_pending_task_def read_task_plan_def splitlines_def
      py_linebreak_def parse_line_def match_task_line_def py_isspace_def
      List.map_filter_simps)

section \<open>Properties of the job wrapper\<close>

lemma run_jules_failed: "command_failed p \<Longrightarrow> \<exists>e. run_jules p = Inl e"
  by (auto simp: run_jules_def command_failed_def split: proc_result.splits option.splits)

lemma run_jules_Inr: "run_jules p = Inr s \<Longrightarrow> \<not> command_failed p"
  by (auto simp: run_jules_def command_failed_def
      split: proc_result.splits option.splits if_splits)

text \<open>
  Claim C10.  When the external cancel command fails, \<open>cancel\<close> returns \<open>False\<close> and the
  tracked jobs are unchanged.  It returns \<open>True\<close> only when the command succeeded, and the
  tracked jobs change only then, the state of the job becoming \<open>CANCELLED\<close>.
\<close>

theorem cancel_failure_leaves_status:
  "(command_failed (host [''jules'', ''cancel'', jid]) \<longrightarrow>
      cancel host jobs jid = (False, jobs))
   \<and> (fst (cancel host jobs jid) \<longrightarrow>
        \<not> command_failed (host [''jules'', ''cancel'', jid])
        \<and> snd (cancel host jobs jid) =
            (case jobs jid of
               Some j \<Rightarrow> jobs(jid \<mapsto> j\<lparr>state := ''CANCELLED''\<rparr>)
             | None \<Rightarrow> jobs))
   \<and> (\<not> fst (cancel host jobs jid) \<longrightarrow> snd (cancel host jobs jid) = jobs)"
proof (cases "run_jules (host [''jules'', ''cancel'', jid])")
  case (Inl e)
  then show ?thesis by (simp add: cancel_def)
next
  case (Inr s)
  then have "\<not> command_failed (host [''jules'', ''cancel'', jid])"
    by (rule run_jules_Inr)
  with Inr show ?thesis by (simp add: cancel_def)
qed

theorem cancel_failure_leaves_status_witness:
  "command_failed (failing_host [''jules'', ''cancel'', ''j1''])
   \<and> cancel failing_host jobs1 ''j1'' = (False, jobs1)
   \<and> fst (cancel working_host jobs1 ''j1'')
   \<and> map_option state (snd (cancel working_host jobs1 ''j1'') ''j1'') = Some ''CANCELLED''"
proof -
  have f: "command_failed (failing_host [''jules'', ''cancel'', ''j1''])"
    by (simp add: command_failed_def failing_host_def)
  have t: "fst (cancel working_host jobs1 ''j1'')"
    by (simp add: cancel_def run_jules_def working_host_def)
  have j: "jobs1 ''j1'' = Some job1" by (simp add: jobs1_def)
  show ?thesis
    using f t cancel_failure_leaves_status [of failing_host "''j1''" jobs1]
      cancel_failure_leaves_status [of working_host "''j1''" jobs1]
    by (simp add: j)
qed

section \<open>Properties of the tool sandbox\<close>

lemma py_count_ne_Nil [simp]: "py_count_ne old [] = 0"
  by (simp add: py_count_ne.simps)



lemma py_count_ne_zero_iff:
  "old \<noteq> [] \<Longrightarrow> py_count_ne old s = 0 \<longleftrightarrow> \<not> sublist old s"
proof (induction old s rule: py_count_ne.induct)
  case (1 sub s)
  show ?case
  proof (cases "length s < length sub")
    case True
    then have "\<not> sublist sub s"
      by (metis sublist_length_le not_less)
    with True show ?thesis by (subst py_count_ne.simps) simp
  next
    case False
    show ?thesis
    proof (cases "prefix sub s")
      case True
      then have "sublist sub s" by (rule prefix_imp_sublist)
      with True False 1(3) show ?thesis by (subst py_count_ne.simps) simp
    next
      case np: False
      from False 1(3) obtain c cs where s: "s = c # cs" by (cases s) auto
      have "py_count_ne sub s = py_count_ne sub (tl s)"
        using False np 1(3) by (subst py_count_ne.simps) simp
      moreover have "py_count_ne sub (tl s) = 0 \<longleftrightarrow> \<not> sublist sub (tl s)"
        using 1(2) False np 1(3) by simp
      moreover have "sublist sub s \<longleftrightarrow> sublist sub (tl s)"
        using np s by (simp add: sublist_Cons_right)
      ultimately show ?thesis by simp
    qed
  qed
qed

lemma py_count_zero_iff: "py_count content old = 0 \<longleftrightarrow> \<not> sublist old content"
  by (cases "old = []") (simp_all add: py_count_def py_count_ne_zero_iff)

text \<open>Occurrences are counted without overlap, as \<open>str.count\<close> does.\<close>

lemma py_count_non_overlapping: "py_count ''aaa'' ''aa'' = 1"
  by (simp add: py_count_def py_count_ne.simps)

















lemma read_file_missing:
  assumes "resolve_path wd path = Inr resolved" and "\<not> isfile h fs resolved"
  shows "\<exists>s. tool_read_file h wd fs path = (Inr (PStr s), fs) \<and> prefix ''Error:'' s"
  using assms by (simp add: tool_read_file_def)

lemma edit_file_missing:
  assumes "resolve_path wd path = Inr resolved" and "\<not> isfile h fs resolved"
  shows "\<exists>s. tool_edit_file h wd fs path old new = (Inr (PStr s), fs) \<and> prefix ''Error:'' s"
  using assms by (simp add: tool_edit_file_def)

lemma run_command_timeout:
  assumes "run_shell h fs c (min t 120) wd = (TimedOut, fs')"
  shows "\<exists>s. tool_run_command h wd fs (PStr c) (PInt t) = (Inr (PStr s), fs')
             \<and> prefix ''Error:'' s"
  using assms by (simp add: tool_run_command_def)

lemma list_files_neither:
  assumes "resolve_path wd (PStr p) = Inr resolved"
    and "CHR ''*'' \<notin> set p" and "CHR ''?'' \<notin> set p" and "\<not> is_dir h fs resolved"
  shows "\<exists>s. tool_list_files h wd fs (PStr p) = (Inr (PStr s), fs) \<and> prefix ''Error:'' s"
  using assms by (simp add: tool_list_files_def)

lemma search_files_timeout:
  assumes "run_argv h fs [''grep'', ''-rn'', ''-E'', pat, wd] 15 = TimedOut"
  shows "tool_search_files h wd fs (PStr pat) (PStr []) (PStr [])
           = (Inr (PStr ''Error: Search timed out''), fs)"
  using assms by (simp add: tool_search_files_def)












section \<open>Properties of the agent step loop\<close>

lemma ModelRouter_init_anthropic: "ModelRouter_init (map fst (env_providers poor_env)) = Inr (env_router poor_env)"
  by (simp add: poor_env_def ModelRouter_init_def MODEL_REGISTRY_def mk_model_def anthropic_router_def
      default_cost_def estimate_call_cost_def)

lemma cheapest_anthropic: "cheapest anthropic_router = Inr (mk_model ''claude-haiku-3-5-20241022'' ''anthropic'' ECONOMY (80 / 100) 4 200000)"
  by (simp add: cheapest_def py_min_key_def anthropic_router_def mk_model_def default_cost_def estimate_call_cost_def)

lemma remaining_poor_agent: "remaining (budget_tracker poor_agent) = 5 / 10000"
  by (simp add: poor_agent_def estimate_steps_def set_estimated_remaining_steps_def BudgetTracker_init_def remaining_def Let_def)

lemma floor_haiku: "estimate_call_cost (mk_model ''claude-haiku-3-5-20241022'' ''anthropic'' ECONOMY (80 / 100) 4 200000) 500 100 = 8 / 10000"
  by (simp add: estimate_call_cost_def mk_model_def)


lemma Agent_init_poor:
  "Agent_init ''fix the bug'' (5 / 10000) ''/w'' [(''anthropic'', silent_provider)]
     plain_host foo_files = Initialised (poor_env, poor_agent)"
proof -
  have "ModelRouter_init [''anthropic''] = Inr anthropic_router"
    using ModelRouter_init_anthropic by (simp add: poor_env_def)
  then show ?thesis
    by (simp add: Agent_init_def poor_env_def poor_agent_def)
qed

lemma total_budget_poor_agent: "total_budget (budget_tracker poor_agent) = 5 / 10000"
  by (simp add: poor_agent_def estimate_steps_def set_estimated_remaining_steps_def
      BudgetTracker_init_def Let_def)

lemma run_reaches_poor_started:
  "run poor_env poor_agent =
     (case run_loop poor_env 0 poor_started of
        Inl e \<Rightarrow> Inl e
      | Inr (n, a3) \<Rightarrow> Inr (show_event SummaryShown a3))"
  by (simp add: run_def Let_def poor_started_def total_budget_poor_agent)
     (simp add: poor_env_def poor_agent_def show_event_def)

text \<open>
  Claim C1.  In every session whose router was built from the session's providers, at the
  head of the loop (not completed, below the step ceiling): the cheapest model exists, and
  if the remaining budget is less than its estimated cost for a minimal call (500 input
  and 100 output tokens), the step reports budget exhaustion and the loop exits with it;
  the step initiates no provider call and the cost records gain no entry.
\<close>

theorem budget_guard_blocks_step:
  assumes init: "ModelRouter_init (map fst (env_providers env)) = Inr (env_router env)"
    and nc: "\<not> completed a" and lt: "n < MAX_STEPS"
  shows "\<exists>ch. cheapest (env_router env) = Inr ch \<and>
      (remaining (budget_tracker a) < estimate_call_cost ch 500 100 \<longrightarrow>
         agent_step env (n + 1) a = Inr (show_event BudgetExhausted a, False)
       \<and> run_loop env n a = Inr (n + 1, show_event BudgetExhausted a)
       \<and> provider_calls (show_event BudgetExhausted a) = provider_calls a
       \<and> records (budget_tracker (show_event BudgetExhausted a)) = records (budget_tracker a)
       \<and> display_log (show_event BudgetExhausted a) = display_log a @ [BudgetExhausted])"
proof -
  have ne: "models (env_router env) \<noteq> []"
    by (rule ModelRouter_init_models(1) [OF init])
  from cheapest_ok [OF ne] obtain ch where ch: "cheapest (env_router env) = Inr ch"
    by blast
  have guard: "agent_step env (n + 1) a = Inr (show_event BudgetExhausted a, False)"
    if "remaining (budget_tracker a) < estimate_call_cost ch 500 100"
    using that ch by (simp add: agent_step_def can_afford_def)
  have loop: "run_loop env n a = Inr (n + 1, show_event BudgetExhausted a)"
    if "remaining (budget_tracker a) < estimate_call_cost ch 500 100"
    using guard [OF that] nc lt by (subst run_loop.simps) simp
  have frame: "provider_calls (show_event BudgetExhausted a) = provider_calls a"
    "records (budget_tracker (show_event BudgetExhausted a)) = records (budget_tracker a)"
    "display_log (show_event BudgetExhausted a) = display_log a @ [BudgetExhausted]"
    by (simp_all add: show_event_def)
  show ?thesis using ch guard loop frame by blast
qed


theorem budget_guard_blocks_step_witness:
  "ModelRouter_init (map fst (env_providers poor_env)) = Inr (env_router poor_env)
   \<and> \<not> completed poor_started \<and> (0::int) < MAX_STEPS
   \<and> remaining (budget_tracker poor_started) = 5 / 10000
   \<and> run_loop poor_env 0 poor_started = Inr (1, show_event BudgetExhausted poor_started)
   \<and> provider_calls (show_event BudgetExhausted poor_started) = []
   \<and> records (budget_tracker (show_event BudgetExhausted poor_started)) = []"
proof -
  have h1: "ModelRouter_init (map fst (env_providers poor_env)) = Inr (env_router poor_env)"
    by (rule ModelRouter_init_anthropic)
  have h2: "\<not> completed poor_started"
    by (simp add: poor_started_def poor_agent_def show_event_def)
  have h3: "(0::int) < MAX_STEPS" by (simp add: MAX_STEPS_def)
  have ch: "cheapest (env_router poor_env)
      = Inr (mk_model ''claude-haiku-3-5-20241022'' ''anthropic'' ECONOMY (80 / 100) 4 200000)"
    by (simp add: poor_env_def cheapest_anthropic)
  have bt: "budget_tracker poor_started = budget_tracker poor_agent"
    by (simp add: poor_started_def show_event_def)
  have low: "remaining (budget_tracker poor_started)
      < estimate_call_cost
          (mk_model ''claude-haiku-3-5-20241022'' ''anthropic'' ECONOMY (80 / 100) 4 200000)
          500 100"
    unfolding bt remaining_poor_agent floor_haiku by simp
  have start: "provider_calls poor_started = []" "records (budget_tracker poor_started) = []"
    by (simp_all add: poor_started_def show_event_def poor_agent_def estimate_steps_def
        set_estimated_remaining_steps_def BudgetTracker_init_def Let_def)
  from budget_guard_blocks_step [OF h1 h2 h3] ch low
  have "run_loop poor_env 0 poor_started = Inr (0 + 1, show_event BudgetExhausted poor_started)"
    and "provider_calls (show_event BudgetExhausted poor_started) = provider_calls poor_started"
    and "records (budget_tracker (show_event BudgetExhausted poor_started))
           = records (budget_tracker poor_started)"
    by auto
  then show ?thesis using h1 h2 h3 start by (simp add: bt remaining_poor_agent)
qed
end
